theory Spec2Isabelle
  imports Main
begin

section \<open>Project creation wizard (internal/cli/project-creation.ts)\<close>

subsection \<open>Actions\<close>

text \<open>
  The enum \<open>Action\<close> has five members. The union type
  \<open>SampleProjectTypeCreationAction\<close> names the three members that create a sample
  project; it is a datatype of its own here, and \<open>Action\<close> embeds it, so that a function
  typed on the union cannot be applied to the two other members.
\<close>

datatype SampleProjectTypeCreationAction =
    CREATE_BASIC_SAMPLE_PROJECT_ACTION
  | CREATE_ADVANCED_SAMPLE_PROJECT_ACTION
  | CREATE_ADVANCED_TYPESCRIPT_SAMPLE_PROJECT_ACTION

datatype Action =
    SampleProject SampleProjectTypeCreationAction
  | CREATE_EMPTY_HARDHAT_CONFIG_ACTION
  | QUIT_ACTION

definition HARDHAT_PACKAGE_NAME :: string where
  "HARDHAT_PACKAGE_NAME = ''hardhat''"

subsection \<open>Dependency tables as JavaScript objects\<close>

text \<open>
  A \<open>Dependencies\<close> object is the list of its own properties in the order
  \<open>Object.entries\<close> yields them (insertion order: every key is a package name, none is an
  array index). Assigning to a key that exists keeps the key's position; a new key goes
  last. An object literal and the spread \<open>{...a, ...b}\<close> are both sequences of such
  assignments.
\<close>

type_synonym Dependencies = "(string \<times> string) list"

fun assign :: "('k \<times> 'v) list \<Rightarrow> 'k \<Rightarrow> 'v \<Rightarrow> ('k \<times> 'v) list" where
  "assign [] k v = [(k, v)]"
| "assign ((k', v') # es) k v =
     (if k' = k then (k, v) # es else (k', v') # assign es k v)"

definition spread :: "('k \<times> 'v) list \<Rightarrow> ('k \<times> 'v) list \<Rightarrow> ('k \<times> 'v) list" where
  "spread target source = fold (\<lambda>(k, v) acc. assign acc k v) source target"

definition BASIC_SAMPLE_PROJECT_DEPENDENCIES :: Dependencies where
  "BASIC_SAMPLE_PROJECT_DEPENDENCIES = spread []
     [(''@nomiclabs/hardhat-waffle'', ''^2.0.0''),
      (''ethereum-waffle'', ''^3.0.0''),
      (''chai'', ''^4.2.0''),
      (''@nomiclabs/hardhat-ethers'', ''^2.0.0''),
      (''ethers'', ''^5.0.0'')]"

definition ADVANCED_SAMPLE_PROJECT_DEPENDENCIES :: Dependencies where
  "ADVANCED_SAMPLE_PROJECT_DEPENDENCIES =
     spread (spread [] BASIC_SAMPLE_PROJECT_DEPENDENCIES)
     [(''@nomiclabs/hardhat-etherscan'', ''^3.0.0''),
      (''dotenv'', ''^16.0.0''),
      (''eslint'', ''^7.29.0''),
      (''eslint-config-prettier'', ''^8.3.0''),
      (''eslint-config-standard'', ''^16.0.3''),
      (''eslint-plugin-import'', ''^2.23.4''),
      (''eslint-plugin-node'', ''^11.1.0''),
      (''eslint-plugin-prettier'', ''^3.4.0''),
      (''eslint-plugin-promise'', ''^5.1.0''),
      (''hardhat-gas-reporter'', ''^1.0.4''),
      (''prettier'', ''^2.3.2''),
      (''prettier-plugin-solidity'', ''^1.0.0-beta.13''),
      (''solhint'', ''^3.3.6''),
      (''solidity-coverage'', ''^0.7.16'')]"

definition ADVANCED_TYPESCRIPT_SAMPLE_PROJECT_DEPENDENCIES :: Dependencies where
  "ADVANCED_TYPESCRIPT_SAMPLE_PROJECT_DEPENDENCIES =
     spread (spread [] ADVANCED_SAMPLE_PROJECT_DEPENDENCIES)
     [(''@typechain/ethers-v5'', ''^7.0.1''),
      (''@typechain/hardhat'', ''^2.3.0''),
      (''@typescript-eslint/eslint-plugin'', ''^4.29.1''),
      (''@typescript-eslint/parser'', ''^4.29.1''),
      (''@types/chai'', ''^4.2.21''),
      (''@types/node'', ''^12.0.0''),
      (''@types/mocha'', ''^9.0.0''),
      (''ts-node'', ''^10.1.0''),
      (''typechain'', ''^5.1.2''),
      (''typescript'', ''^4.5.2'')]"

fun SAMPLE_PROJECT_DEPENDENCIES :: "SampleProjectTypeCreationAction \<Rightarrow> Dependencies" where
  "SAMPLE_PROJECT_DEPENDENCIES CREATE_BASIC_SAMPLE_PROJECT_ACTION =
     BASIC_SAMPLE_PROJECT_DEPENDENCIES"
| "SAMPLE_PROJECT_DEPENDENCIES CREATE_ADVANCED_SAMPLE_PROJECT_ACTION =
     ADVANCED_SAMPLE_PROJECT_DEPENDENCIES"
| "SAMPLE_PROJECT_DEPENDENCIES CREATE_ADVANCED_TYPESCRIPT_SAMPLE_PROJECT_ACTION =
     ADVANCED_TYPESCRIPT_SAMPLE_PROJECT_DEPENDENCIES"


subsection \<open>Paths and the file tree\<close>

text \<open>
  A path is absolute or relative to the working directory of the process, and is kept as
  its list of segments (plain names: no \<open>.\<close>, no \<open>..\<close>). \<open>join\<close> is \<open>path.join\<close> on
  such segments; every file-system call resolves a relative path against
  \<open>process.cwd()\<close>.
\<close>

datatype path = Absolute "string list" | Relative "string list"

fun join :: "path \<Rightarrow> string list \<Rightarrow> path" where
  "join (Absolute ss) more = Absolute (ss @ more)"
| "join (Relative ss) more = Relative (ss @ more)"

fun resolve :: "string list \<Rightarrow> path \<Rightarrow> string list" where
  "resolve wd (Absolute ss) = ss"
| "resolve wd (Relative ss) = wd @ ss"

text \<open>
  The file system is a tree: a file holds its text, a directory its entries in the order
  a listing returns them.
\<close>

datatype node = File string | Dir "(string \<times> node) list"

datatype errno = ENOENT | ENOTDIR | EISDIR | EEXIST | EINVAL

fun lookup :: "node \<Rightarrow> string list \<Rightarrow> node option" where
  "lookup n [] = Some n"
| "lookup n (s # ss) =
     (case n of
        File _ \<Rightarrow> None
      | Dir es \<Rightarrow> (case map_of es s of None \<Rightarrow> None | Some c \<Rightarrow> lookup c ss))"

text \<open>\<open>putNode t p new\<close> stores \<open>new\<close> at \<open>p\<close>; the parent of \<open>p\<close> must be a directory.\<close>

fun putNode :: "node \<Rightarrow> string list \<Rightarrow> node \<Rightarrow> errno + node" where
  "putNode t [] new = Inr new"
| "putNode t (s # ss) new =
     (case t of
        File _ \<Rightarrow> Inl ENOTDIR
      | Dir es \<Rightarrow>
          (if ss = [] then Inr (Dir (assign es s new))
           else (case map_of es s of
                   None \<Rightarrow> Inl ENOENT
                 | Some c \<Rightarrow>
                     (case putNode c ss new of
                        Inl e \<Rightarrow> Inl e
                      | Inr c' \<Rightarrow> Inr (Dir (assign es s c'))))))"

text \<open>
  \<open>fsExtra.remove\<close>: deletes a file or a whole directory, silently when nothing is there.
  Removing the root leaves it empty.
\<close>

fun removeNode :: "node \<Rightarrow> string list \<Rightarrow> node" where
  "removeNode t [] = Dir []"
| "removeNode t (s # ss) =
     (case t of
        File _ \<Rightarrow> t
      | Dir es \<Rightarrow>
          (if ss = [] then Dir (filter (\<lambda>(k, _). k \<noteq> s) es)
           else (case map_of es s of
                   None \<Rightarrow> t
                 | Some c \<Rightarrow> Dir (assign es s (removeNode c ss)))))"

text \<open>\<open>fsExtra.ensureDir\<close>: creates the directory and every missing ancestor.\<close>

fun ensureDirNode :: "node \<Rightarrow> string list \<Rightarrow> errno + node" where
  "ensureDirNode t [] = (case t of File _ \<Rightarrow> Inl EEXIST | Dir _ \<Rightarrow> Inr t)"
| "ensureDirNode t (s # ss) =
     (case t of
        File _ \<Rightarrow> Inl ENOTDIR
      | Dir es \<Rightarrow>
          (case ensureDirNode (case map_of es s of None \<Rightarrow> Dir [] | Some c \<Rightarrow> c) ss of
             Inl e \<Rightarrow> Inl e
           | Inr c' \<Rightarrow> Inr (Dir (assign es s c'))))"

text \<open>
  \<open>fsExtra.copy\<close> of one node onto what is at the destination (\<open>None\<close>: nothing). A file
  overwrites a file, a directory is merged into a directory entry by entry, and a file
  never replaces a directory nor a directory a file (fs-extra raises a plain \<open>Error\<close> for
  both; the codes \<open>EISDIR\<close> and \<open>ENOTDIR\<close> stand for them here). The entries of a directory
  are taken from the end of its listing to the start, as \<open>copyDirItems\<close> pops them. The
  copy stops at the first failure, keeps what it has written, and reports the failure
  with the path, below the destination, of the entry that could not be overwritten.
\<close>

fun copyNode :: "node \<Rightarrow> node option \<Rightarrow> (errno \<times> string list) option \<times> node" where
  "copyNode (File c) d =
     (case d of
        Some (Dir ds) \<Rightarrow> (Some (EISDIR, []), Dir ds)
      | _ \<Rightarrow> (None, File c))"
| "copyNode (Dir es) d =
     (case d of
        Some (File x) \<Rightarrow> (Some (ENOTDIR, []), File x)
      | _ \<Rightarrow>
        (case fold (\<lambda>(k, c) (e, ds).
                      (case e of
                         Some _ \<Rightarrow> (e, ds)
                       | None \<Rightarrow> (case copyNode c (map_of ds k) of
                                    (None, c') \<Rightarrow> (None, assign ds k c')
                                  | (Some (er, p), c') \<Rightarrow>
                                      (Some (er, k # p), assign ds k c'))))
                (rev es) (None, (case d of Some (Dir ds) \<Rightarrow> ds | _ \<Rightarrow> [])) of
           (e, ds') \<Rightarrow> (e, Dir ds')))"

subsection \<open>Thrown values, the environment and the state\<close>

text \<open>
  Everything the source can throw or reject a promise with: the two \<open>HardhatError\<close>s it
  raises itself (with their message arguments), a failed file-system call (its code and
  the resolved path), \<open>JSON.parse\<close>'s error, and the plain values that the prompt
  library and the child-process promise reject with.
\<close>

datatype thrown =
    HardhatError_CONFLICTING_FILES path string
  | HardhatError_UNSUPPORTED_OPERATION string
  | FsError errno "string list"
  | SyntaxError
  | TypeError
  | ThrownString string
  | ThrownBoolean bool

text \<open>The parsed manifest, as far as \<open>isInstalled\<close> reads it; \<open>None\<close> is \<open>undefined\<close>.\<close>

record PackageJson =
  dependencies :: "Dependencies option"
  devDependencies :: "Dependencies option"
  optionalDependencies :: "Dependencies option"

text \<open>
  What the child process reports first: its \<open>close\<close> event with the exit status
  (\<open>None\<close> is \<open>null\<close>: killed by a signal), or its \<open>error\<close> event.
\<close>

datatype childProcessEvent = Close "int option" | ChildError

text \<open>
  The surroundings of one run, fixed while it lasts: the three environment variables,
  the platform, the working directory, and what the collaborators imported from other
  modules answer (the running package's root and version, the prompts of
  \<open>./prompt\<close> and of enquirer, \<open>JSON.parse\<close>, the constants of other modules, the
  spawned installer).
\<close>

record env =
  HARDHAT_CREATE_BASIC_SAMPLE_PROJECT_WITH_DEFAULTS :: "string option"
  HARDHAT_CREATE_ADVANCED_SAMPLE_PROJECT_WITH_DEFAULTS :: "string option"
  HARDHAT_CREATE_ADVANCED_TYPESCRIPT_SAMPLE_PROJECT_WITH_DEFAULTS :: "string option"
  osType :: string
  osEOL :: string
  cwd :: "string list"
  packageRoot :: "string list"
  packageVersion :: string
  DEFAULT_SOLC_VERSION :: string
  recommendedGitIgnore :: string
  jsonParse :: "string \<Rightarrow> PackageJson option"
  enquirerAction :: "thrown + string"
  confirmProjectCreation :: "thrown + path \<times> bool"
  confirmTelemetryConsent :: "thrown + bool option"
  confirmRecommendedDepsInstallation :: "thrown + bool"
  childProcess :: childProcessEvent

text \<open>
  What a run leaves behind, in order: console lines (colour codes dropped; the banner and
  the three lines decorated with emoji are events of their own), the prompts shown, and
  the processes spawned.
\<close>

datatype event =
    ConsoleLog string
  | ConsoleWarn string
  | LogAsciiLogo
  | LogWelcome string
  | LogConfigCreated
  | LogProjectCreated
  | PromptAction
  | PromptProjectCreation
  | PromptTelemetryConsent
  | PromptRecommendedDepsInstallation Dependencies
  | Spawn string "string list"

record world =
  fs :: node
  trace :: "event list"
  telemetryConsent :: "bool option"

text \<open>
  An async function is a state transformer that ends resolved (\<open>Inr\<close>) or rejected
  (\<open>Inl\<close>); \<open>await\<close> runs the continuation on a resolved value and passes a rejection
  on, with the state as the rejected call left it.
\<close>

type_synonym 'a io = "world \<Rightarrow> (thrown + 'a) \<times> world"

definition resolved :: "'a \<Rightarrow> 'a io" where
  "resolved x w = (Inr x, w)"

definition rejected :: "thrown \<Rightarrow> 'a io" where
  "rejected e w = (Inl e, w)"

definition await :: "'a io \<Rightarrow> ('a \<Rightarrow> 'b io) \<Rightarrow> 'b io" where
  "await m f w = (case m w of (Inl e, w') \<Rightarrow> (Inl e, w') | (Inr x, w') \<Rightarrow> f x w')"

definition tryCatch :: "'a io \<Rightarrow> (thrown \<Rightarrow> 'a io) \<Rightarrow> 'a io" where
  "tryCatch m h w = (case m w of (Inl e, w') \<Rightarrow> h e w' | (Inr x, w') \<Rightarrow> (Inr x, w'))"

definition settled :: "thrown + 'a \<Rightarrow> 'a io" where
  "settled r = (case r of Inl e \<Rightarrow> rejected e | Inr x \<Rightarrow> resolved x)"

definition emit :: "event \<Rightarrow> unit io" where
  "emit ev w = (Inr (), w\<lparr>trace := trace w @ [ev]\<rparr>)"

subsection \<open>The calls of fs-extra\<close>

definition fsExtra_pathExists :: "env \<Rightarrow> path \<Rightarrow> bool io" where
  "fsExtra_pathExists E p w =
     (case lookup (fs w) (resolve (cwd E) p) of
        None \<Rightarrow> (Inr False, w)
      | Some _ \<Rightarrow> (Inr True, w))"

definition fsExtra_readdirSync :: "env \<Rightarrow> path \<Rightarrow> string list io" where
  "fsExtra_readdirSync E p w =
     (case lookup (fs w) (resolve (cwd E) p) of
        None \<Rightarrow> (Inl (FsError ENOENT (resolve (cwd E) p)), w)
      | Some (File _) \<Rightarrow> (Inl (FsError ENOTDIR (resolve (cwd E) p)), w)
      | Some (Dir es) \<Rightarrow> (Inr (map fst es), w))"

definition fsExtra_remove :: "env \<Rightarrow> path \<Rightarrow> unit io" where
  "fsExtra_remove E p w = (Inr (), w\<lparr>fs := removeNode (fs w) (resolve (cwd E) p)\<rparr>)"

definition fsExtra_ensureDir :: "env \<Rightarrow> path \<Rightarrow> unit io" where
  "fsExtra_ensureDir E p w =
     (case ensureDirNode (fs w) (resolve (cwd E) p) of
        Inl e \<Rightarrow> (Inl (FsError e (resolve (cwd E) p)), w)
      | Inr t \<Rightarrow> (Inr (), w\<lparr>fs := t\<rparr>))"

text \<open>
  \<open>fsExtra.copy(src, dest)\<close> with its default options (overwrite): the source must exist
  and must be neither the destination nor an ancestor of it; the destination's parent is
  created; then the source is copied onto the destination.
\<close>

definition fsExtra_copy :: "env \<Rightarrow> path \<Rightarrow> path \<Rightarrow> unit io" where
  "fsExtra_copy E src dest w =
     (let s = resolve (cwd E) src; d = resolve (cwd E) dest in
      case lookup (fs w) s of
        None \<Rightarrow> (Inl (FsError ENOENT s), w)
      | Some n \<Rightarrow>
          if take (length s) d = s then (Inl (FsError EINVAL d), w)
          else (case ensureDirNode (fs w) (butlast d) of
                  Inl e \<Rightarrow> (Inl (FsError e (butlast d)), w)
                | Inr t1 \<Rightarrow>
                    (case copyNode n (lookup t1 d) of
                       (e, n') \<Rightarrow>
                         (case putNode t1 d n' of
                            Inl e' \<Rightarrow> (Inl (FsError e' d), w)
                          | Inr t2 \<Rightarrow>
                              (case e of
                                 Some (er, p) \<Rightarrow> (Inl (FsError er (d @ p)), w\<lparr>fs := t2\<rparr>)
                               | None \<Rightarrow> (Inr (), w\<lparr>fs := t2\<rparr>))))))"

text \<open>
  \<open>fsExtra.move(src, dest, { overwrite: true })\<close>: the source must exist; what is at the
  destination is removed, and the source is renamed to it.
\<close>

definition fsExtra_move :: "env \<Rightarrow> path \<Rightarrow> path \<Rightarrow> unit io" where
  "fsExtra_move E src dest w =
     (let s = resolve (cwd E) src; d = resolve (cwd E) dest in
      case lookup (fs w) s of
        None \<Rightarrow> (Inl (FsError ENOENT s), w)
      | Some n \<Rightarrow>
          if take (length s) d = s then (Inl (FsError EINVAL d), w)
          else (case ensureDirNode (fs w) (butlast d) of
                  Inl e \<Rightarrow> (Inl (FsError e (butlast d)), w)
                | Inr t1 \<Rightarrow>
                    (case putNode (removeNode t1 d) d n of
                       Inl e' \<Rightarrow> (Inl (FsError e' d), w)
                     | Inr t2 \<Rightarrow> (Inr (), w\<lparr>fs := removeNode t2 s\<rparr>))))"

definition fsExtra_readFile :: "env \<Rightarrow> path \<Rightarrow> string io" where
  "fsExtra_readFile E p w =
     (case lookup (fs w) (resolve (cwd E) p) of
        None \<Rightarrow> (Inl (FsError ENOENT (resolve (cwd E) p)), w)
      | Some (Dir _) \<Rightarrow> (Inl (FsError EISDIR (resolve (cwd E) p)), w)
      | Some (File text) \<Rightarrow> (Inr text, w))"

definition fsExtra_writeFile :: "env \<Rightarrow> path \<Rightarrow> string \<Rightarrow> unit io" where
  "fsExtra_writeFile E p text w =
     (case lookup (fs w) (resolve (cwd E) p) of
        Some (Dir _) \<Rightarrow> (Inl (FsError EISDIR (resolve (cwd E) p)), w)
      | _ \<Rightarrow>
          (case putNode (fs w) (resolve (cwd E) p) (File text) of
             Inl e \<Rightarrow> (Inl (FsError e (resolve (cwd E) p)), w)
           | Inr t \<Rightarrow> (Inr (), w\<lparr>fs := t\<rparr>)))"

definition fsExtra_readJSONSync :: "env \<Rightarrow> path \<Rightarrow> PackageJson io" where
  "fsExtra_readJSONSync E p =
     await (fsExtra_readFile E p) (\<lambda>text.
       case jsonParse E text of
         None \<Rightarrow> rejected SyntaxError
       | Some packageJson \<Rightarrow> resolved packageJson)"


subsection \<open>Helpers from the libraries\<close>

definition NL :: string where
  "NL = [CHR 0x0A]"

definition DQ :: string where
  "DQ = [CHR 0x22]"

text \<open>\<open>Array.prototype.join\<close>.\<close>

fun joinWith :: "string \<Rightarrow> string list \<Rightarrow> string" where
  "joinWith sep [] = []"
| "joinWith sep [x] = x"
| "joinWith sep (x # y # ys) = x @ sep @ joinWith sep (y # ys)"

text \<open>
  lodash's \<open>union\<close> and \<open>intersection\<close>: the distinct values, in the order of their first
  occurrence, of all the arrays, and of the first array that are also in the second.
\<close>

fun uniqInto :: "'a list \<Rightarrow> 'a list \<Rightarrow> 'a list" where
  "uniqInto seen [] = seen"
| "uniqInto seen (x # xs) = uniqInto (if x \<in> set seen then seen else seen @ [x]) xs"

definition lodash_union :: "'a list list \<Rightarrow> 'a list" where
  "lodash_union arrays = uniqInto [] (concat arrays)"

definition lodash_intersection :: "'a list \<Rightarrow> 'a list \<Rightarrow> 'a list" where
  "lodash_intersection xs ys = uniqInto [] (filter (\<lambda>x. x \<in> set ys) xs)"

text \<open>A \<open>for ... of\<close> loop with an awaited body, and \<open>filter\<close> with a predicate that can throw.\<close>

fun forEachAwait :: "'a list \<Rightarrow> ('a \<Rightarrow> unit io) \<Rightarrow> unit io" where
  "forEachAwait [] body = resolved ()"
| "forEachAwait (x # xs) body = await (body x) (\<lambda>_. forEachAwait xs body)"

fun filterThrowing :: "('a \<Rightarrow> bool io) \<Rightarrow> 'a list \<Rightarrow> 'a list io" where
  "filterThrowing p [] = resolved []"
| "filterThrowing p (x # xs) =
     await (p x) (\<lambda>keep.
     await (filterThrowing p xs) (\<lambda>rest.
       resolved (if keep then x # rest else rest)))"

text \<open>\<open>process.env.X !== undefined\<close>.\<close>

fun defined :: "'a option \<Rightarrow> bool" where
  "defined None = False"
| "defined (Some _) = True"

text \<open>
  The \<open>in\<close> operator on an object created by a literal: the object's own keys, and the
  properties it inherits from \<open>Object.prototype\<close>.
\<close>

definition ObjectPrototypeProperties :: "string list" where
  "ObjectPrototypeProperties =
     [''constructor'', ''__defineGetter__'', ''__defineSetter__'', ''hasOwnProperty'',
      ''__lookupGetter__'', ''__lookupSetter__'', ''isPrototypeOf'',
      ''propertyIsEnumerable'', ''toString'', ''valueOf'', ''__proto__'',
      ''toLocaleString'']"

definition inOperator :: "string \<Rightarrow> Dependencies \<Rightarrow> bool" where
  "inOperator k obj = (k \<in> set (map fst obj) \<or> k \<in> set ObjectPrototypeProperties)"

text \<open>Spreading \<open>undefined\<close> adds no property.\<close>

fun orEmpty :: "Dependencies option \<Rightarrow> Dependencies" where
  "orEmpty None = []"
| "orEmpty (Some d) = d"

subsection \<open>Template composition (lines 92-241)\<close>

definition removeProjectDirIfPresent :: "env \<Rightarrow> path \<Rightarrow> string \<Rightarrow> unit io" where
  "removeProjectDirIfPresent E projectRoot dirName =
     (let dirPath = join projectRoot [dirName] in
      await (fsExtra_pathExists E dirPath) (\<lambda>present.
        if present then fsExtra_remove E dirPath else resolved ()))"

definition removeTempFilesIfPresent :: "env \<Rightarrow> path \<Rightarrow> unit io" where
  "removeTempFilesIfPresent E projectRoot =
     await (removeProjectDirIfPresent E projectRoot ''cache'') (\<lambda>_.
       removeProjectDirIfPresent E projectRoot ''artifacts'')"

definition printAsciiLogo :: "unit io" where
  "printAsciiLogo = emit LogAsciiLogo"

definition printWelcomeMessage :: "env \<Rightarrow> unit io" where
  "printWelcomeMessage E = emit (LogWelcome (packageVersion E))"

definition checkForDuplicates ::
  "env \<Rightarrow> path \<Rightarrow> SampleProjectTypeCreationAction \<Rightarrow> unit io" where
  "checkForDuplicates E projectRoot projectType =
     (let srcPath = join (Absolute (packageRoot E)) [''sample-projects''] in
      await (fsExtra_readdirSync E projectRoot) (\<lambda>destFiles.
      await (fsExtra_readdirSync E (join srcPath [''basic''])) (\<lambda>basicFiles.
      await
        (case projectType of
           CREATE_BASIC_SAMPLE_PROJECT_ACTION \<Rightarrow> resolved basicFiles
         | CREATE_ADVANCED_SAMPLE_PROJECT_ACTION \<Rightarrow>
             await (fsExtra_readdirSync E (join srcPath [''advanced''])) (\<lambda>advancedFiles.
               resolved (lodash_union [basicFiles, advancedFiles]))
         | CREATE_ADVANCED_TYPESCRIPT_SAMPLE_PROJECT_ACTION \<Rightarrow>
             await (fsExtra_readdirSync E (join srcPath [''advanced''])) (\<lambda>advancedFiles.
             await (fsExtra_readdirSync E (join srcPath [''advanced-ts''])) (\<lambda>tsFiles.
               resolved (lodash_union [basicFiles, advancedFiles, tsFiles]))))
        (\<lambda>srcFiles.
      let duplicates = lodash_intersection srcFiles destFiles in
      if length duplicates > 0
      then rejected (HardhatError_CONFLICTING_FILES projectRoot
             (joinWith (osEOL E) (map (\<lambda>n. ''  '' @ n) duplicates)))
      else resolved ()))))"

definition copySampleProject ::
  "env \<Rightarrow> path \<Rightarrow> SampleProjectTypeCreationAction \<Rightarrow> unit io" where
  "copySampleProject E projectRoot projectType =
     (let samples = join (Absolute (packageRoot E)) [''sample-projects''] in
      await (checkForDuplicates E projectRoot projectType) (\<lambda>_.
      await (fsExtra_ensureDir E projectRoot) (\<lambda>_.
      await (fsExtra_copy E (join samples [''basic'']) projectRoot) (\<lambda>_.
      await
        (if projectType = CREATE_ADVANCED_SAMPLE_PROJECT_ACTION \<or>
            projectType = CREATE_ADVANCED_TYPESCRIPT_SAMPLE_PROJECT_ACTION
         then
           await (fsExtra_copy E (join samples [''advanced'']) projectRoot) (\<lambda>_.
           await (fsExtra_remove E (join projectRoot [''scripts'', ''sample-script.js''])) (\<lambda>_.
             fsExtra_move E (join projectRoot [''npmignore''])
               (join projectRoot [''.npmignore''])))
         else resolved ()) (\<lambda>_.
      await
        (if projectType = CREATE_ADVANCED_TYPESCRIPT_SAMPLE_PROJECT_ACTION
         then
           await (fsExtra_copy E (join samples [''advanced-ts'']) projectRoot) (\<lambda>_.
           await
             (forEachAwait
                [Relative [''hardhat.config.js''],
                 join (Relative [''scripts'']) [''deploy.js''],
                 join (Relative [''test'']) [''sample-test.js'']]
                (\<lambda>jsFile. fsExtra_remove E jsFile)) (\<lambda>_.
             fsExtra_move E (join projectRoot [''npmignore''])
               (join projectRoot [''.npmignore''])))
         else resolved ()) (\<lambda>_.
      await (removeTempFilesIfPresent E projectRoot) (\<lambda>_.
        fsExtra_remove E (join projectRoot [''LICENSE.md'']))))))))"

definition addGitIgnore :: "env \<Rightarrow> path \<Rightarrow> unit io" where
  "addGitIgnore E projectRoot =
     (let gitIgnorePath = join projectRoot [''.gitignore''] in
      await (fsExtra_pathExists E gitIgnorePath) (\<lambda>present.
      await
        (if present
         then await (fsExtra_readFile E gitIgnorePath) (\<lambda>existingContent.
                resolved (existingContent @ NL @ recommendedGitIgnore E))
         else resolved (recommendedGitIgnore E)) (\<lambda>content.
        fsExtra_writeFile E gitIgnorePath content)))"

subsection \<open>Dependencies and the install command (lines 481-570)\<close>

definition getDependencies :: "env \<Rightarrow> SampleProjectTypeCreationAction \<Rightarrow> Dependencies io" where
  "getDependencies E projectType =
     resolved
       (spread (spread [] [(HARDHAT_PACKAGE_NAME, ''^'' @ packageVersion E)])
          (SAMPLE_PROJECT_DEPENDENCIES projectType))"

definition isYarnProject :: "env \<Rightarrow> bool io" where
  "isYarnProject E = fsExtra_pathExists E (Relative [''yarn.lock''])"

definition getRecommendedDependenciesInstallationCommand ::
  "env \<Rightarrow> Dependencies \<Rightarrow> bool \<Rightarrow> string list io" where
  "getRecommendedDependenciesInstallationCommand E deps quoteDependencies =
     (let tokens = map (\<lambda>(name, version).
                     if quoteDependencies then DQ @ name @ ''@'' @ version @ DQ
                     else name @ ''@'' @ version) deps in
      await (isYarnProject E) (\<lambda>yarn.
        if yarn then resolved ([''yarn'', ''add'', ''--dev''] @ tokens)
        else resolved ([''npm'', ''install'', ''--save-dev''] @ tokens)))"

definition canInstallRecommendedDeps :: "env \<Rightarrow> bool io" where
  "canInstallRecommendedDeps E =
     await (fsExtra_pathExists E (Relative [''package.json''])) (\<lambda>present.
       resolved (present \<and> osType E \<noteq> ''Windows_NT''))"

text \<open>The object \<open>allDependencies\<close> that \<open>isInstalled\<close> builds from the parsed manifest.\<close>

definition allDependencies :: "PackageJson \<Rightarrow> Dependencies" where
  "allDependencies packageJson =
     spread (spread (spread [] (orEmpty (dependencies packageJson)))
               (orEmpty (devDependencies packageJson)))
       (orEmpty (optionalDependencies packageJson))"

definition isInstalled :: "env \<Rightarrow> string \<Rightarrow> bool io" where
  "isInstalled E dep =
     await (fsExtra_readJSONSync E (Relative [''package.json''])) (\<lambda>packageJson.
       resolved (inOperator dep (allDependencies packageJson)))"

text \<open>
  The promise of \<open>installDependencies\<close> resolves with \<open>true\<close> on exit status 0 and is
  rejected with \<open>false\<close> on any other status and on the \<open>error\<close> event.
\<close>

definition installDependencies :: "env \<Rightarrow> string \<Rightarrow> string list \<Rightarrow> bool io" where
  "installDependencies E packageManager args =
     await (emit (ConsoleLog (packageManager @ '' '' @ joinWith '' '' args))) (\<lambda>_.
     await (emit (Spawn packageManager args)) (\<lambda>_.
       case childProcess E of
         Close status \<Rightarrow>
           if status = Some 0 then resolved True else rejected (ThrownBoolean False)
       | ChildError \<Rightarrow> rejected (ThrownBoolean False)))"

definition installRecommendedDependencies :: "env \<Rightarrow> Dependencies \<Rightarrow> bool io" where
  "installRecommendedDependencies E deps =
     await (emit (ConsoleLog [])) (\<lambda>_.
     await (getRecommendedDependenciesInstallationCommand E deps False) (\<lambda>installCmd.
       case installCmd of
         [] \<Rightarrow> rejected TypeError
       | packageManager # args \<Rightarrow> installDependencies E packageManager args))"

definition printRecommendedDepsInstallationInstructions ::
  "env \<Rightarrow> SampleProjectTypeCreationAction \<Rightarrow> unit io" where
  "printRecommendedDepsInstallationInstructions E projectType =
     await (emit (ConsoleLog
              ''You need to install these dependencies to run the sample project:'')) (\<lambda>_.
     await (getDependencies E projectType) (\<lambda>deps.
     await (getRecommendedDependenciesInstallationCommand E deps True) (\<lambda>cmd.
       emit (ConsoleLog (''  '' @ joinWith '' '' cmd)))))"

subsection \<open>Action selection and the wizard (lines 271-479)\<close>

definition writeEmptyHardhatConfig :: "env \<Rightarrow> unit io" where
  "writeEmptyHardhatConfig E =
     fsExtra_writeFile E (Relative [''hardhat.config.js''])
       (''/**'' @ NL @
        '' * @type import('' @ [CHR 0x27] @ ''hardhat/config'' @ [CHR 0x27] @
        '').HardhatUserConfig'' @ NL @
        '' */'' @ NL @
        ''module.exports = {'' @ NL @
        ''  solidity: '' @ DQ @ DEFAULT_SOLC_VERSION E @ DQ @ '','' @ NL @
        ''};'' @ NL)"

fun actionOfString :: "string \<Rightarrow> Action option" where
  "actionOfString a =
     (if a = ''Create a basic sample project''
        then Some (SampleProject CREATE_BASIC_SAMPLE_PROJECT_ACTION)
      else if a = ''Create an advanced sample project''
        then Some (SampleProject CREATE_ADVANCED_SAMPLE_PROJECT_ACTION)
      else if a = ''Create an advanced sample project that uses TypeScript''
        then Some (SampleProject CREATE_ADVANCED_TYPESCRIPT_SAMPLE_PROJECT_ACTION)
      else if a = ''Create an empty hardhat.config.js''
        then Some CREATE_EMPTY_HARDHAT_CONFIG_ACTION
      else if a = ''Quit'' then Some QUIT_ACTION
      else None)"

definition getAction :: "env \<Rightarrow> Action io" where
  "getAction E =
     (if defined (HARDHAT_CREATE_BASIC_SAMPLE_PROJECT_WITH_DEFAULTS E)
        then resolved (SampleProject CREATE_BASIC_SAMPLE_PROJECT_ACTION)
      else if defined (HARDHAT_CREATE_ADVANCED_SAMPLE_PROJECT_WITH_DEFAULTS E)
        then resolved (SampleProject CREATE_ADVANCED_SAMPLE_PROJECT_ACTION)
      else if defined (HARDHAT_CREATE_ADVANCED_TYPESCRIPT_SAMPLE_PROJECT_WITH_DEFAULTS E)
        then resolved (SampleProject CREATE_ADVANCED_TYPESCRIPT_SAMPLE_PROJECT_ACTION)
      else
        tryCatch
          (await (emit PromptAction) (\<lambda>_.
           await (settled (enquirerAction E)) (\<lambda>response.
             case actionOfString response of
               Some a \<Rightarrow> resolved a
             | None \<Rightarrow>
                 rejected (HardhatError_UNSUPPORTED_OPERATION
                   (''Responding with '' @ DQ @ response @ DQ @
                    '' to the project initialization wizard'')))))
          (\<lambda>e. if e = ThrownString [] then resolved QUIT_ACTION else rejected e))"

text \<open>
  \<open>writeJson("package.json", { name: "hardhat-project" }, { spaces: 2 })\<close> writes the
  object's JSON text, indented by two spaces, and a final newline.
\<close>

definition defaultPackageJsonText :: string where
  "defaultPackageJsonText =
     ''{'' @ NL @ ''  '' @ DQ @ ''name'' @ DQ @ '': '' @ DQ @ ''hardhat-project'' @ DQ @ NL @
     ''}'' @ NL"

definition createPackageJson :: "env \<Rightarrow> unit io" where
  "createPackageJson E = fsExtra_writeFile E (Relative [''package.json'']) defaultPackageJsonText"

definition useDefaultPromptResponses :: "env \<Rightarrow> bool" where
  "useDefaultPromptResponses E =
     (defined (HARDHAT_CREATE_BASIC_SAMPLE_PROJECT_WITH_DEFAULTS E) \<or>
      defined (HARDHAT_CREATE_ADVANCED_SAMPLE_PROJECT_WITH_DEFAULTS E) \<or>
      defined (HARDHAT_CREATE_ADVANCED_TYPESCRIPT_SAMPLE_PROJECT_WITH_DEFAULTS E))"

text \<open>Lines 359-378 of \<open>createProject\<close>: the empty-config action.\<close>

definition createProject_emptyConfig :: "env \<Rightarrow> unit io" where
  "createProject_emptyConfig E =
     await (writeEmptyHardhatConfig E) (\<lambda>_.
     await (emit LogConfigCreated) (\<lambda>_.
     await (isInstalled E HARDHAT_PACKAGE_NAME) (\<lambda>installed.
       if installed then resolved ()
       else
         await (emit (ConsoleLog [])) (\<lambda>_.
         await (emit (ConsoleLog
                  ''You need to install hardhat locally to use it. Please run:'')) (\<lambda>_.
         await (getRecommendedDependenciesInstallationCommand E
                  (spread [] [(HARDHAT_PACKAGE_NAME, ''^'' @ packageVersion E)]) True) (\<lambda>cmd.
         await (emit (ConsoleLog [])) (\<lambda>_.
         await (emit (ConsoleLog (joinWith '' '' cmd))) (\<lambda>_.
           emit (ConsoleLog [])))))))))"

text \<open>
  Lines 380-410: the project root and the gitignore answer; \<open>None\<close> is the early
  \<open>return\<close> on a cancelled prompt.
\<close>

definition createProject_responses :: "env \<Rightarrow> (path \<times> bool) option io" where
  "createProject_responses E =
     (if useDefaultPromptResponses E then resolved (Some (Absolute (cwd E), True))
      else
        tryCatch
          (await (emit PromptProjectCreation) (\<lambda>_.
           await (settled (confirmProjectCreation E)) (\<lambda>responses.
             resolved (Some responses))))
          (\<lambda>e. if e = ThrownString [] then resolved None else rejected e))"

text \<open>Lines 420-426: the telemetry consent.\<close>

definition createProject_telemetry :: "env \<Rightarrow> unit io" where
  "createProject_telemetry E w =
     (case telemetryConsent w of
        Some _ \<Rightarrow> (Inr (), w)
      | None \<Rightarrow>
          await (emit PromptTelemetryConsent) (\<lambda>_.
          await (settled (confirmTelemetryConsent E)) (\<lambda>consent.
            case consent of
              None \<Rightarrow> resolved ()
            | Some c \<Rightarrow> (\<lambda>w'. (Inr (), w'\<lparr>telemetryConsent := Some c\<rparr>)))) w)"

text \<open>
  Lines 428-467: whether the installation instructions are to be shown, after the install
  that the state of the manifest calls for.
\<close>

definition createProject_install ::
  "env \<Rightarrow> SampleProjectTypeCreationAction \<Rightarrow> bool io" where
  "createProject_install E action =
     await (canInstallRecommendedDeps E) (\<lambda>canInstall.
       if canInstall then
         await (getDependencies E action) (\<lambda>deps.
         let recommendedDeps = map fst deps in
         await (filterThrowing (\<lambda>(name, _). await (isInstalled E name) (\<lambda>i. resolved (\<not> i)))
                  deps) (\<lambda>missing.
         let dependenciesToInstall = spread [] missing in
         await (filterThrowing (isInstalled E) recommendedDeps) (\<lambda>installedRecommendedDeps.
         let installedExceptHardhat =
               filter (\<lambda>name. name \<noteq> HARDHAT_PACKAGE_NAME) installedRecommendedDeps in
         if length installedRecommendedDeps = length recommendedDeps then resolved False
         else if length installedExceptHardhat = 0 then
           await
             (if useDefaultPromptResponses E then resolved True
              else await (emit (PromptRecommendedDepsInstallation dependenciesToInstall)) (\<lambda>_.
                     settled (confirmRecommendedDepsInstallation E))) (\<lambda>shouldInstall.
             if shouldInstall then
               await (installRecommendedDependencies E dependenciesToInstall) (\<lambda>installed.
               await
                 (if installed then resolved ()
                  else emit (ConsoleWarn
                         (''Failed to install the sample project'' @ [CHR 0x27] @
                          ''s dependencies''))) (\<lambda>_.
                 resolved (\<not> installed)))
             else resolved True)
         else resolved True)))
       else resolved True)"

text \<open>Lines 428-478: the install, then the instructions if they are still due, then the last two lines.\<close>

definition createProject_finish :: "env \<Rightarrow> SampleProjectTypeCreationAction \<Rightarrow> unit io" where
  "createProject_finish E action =
     await (createProject_install E action) (\<lambda>shouldShowInstallationInstructions.
     await
       (if shouldShowInstallationInstructions
        then await (emit (ConsoleLog [])) (\<lambda>_.
               printRecommendedDepsInstallationInstructions E action)
        else resolved ()) (\<lambda>_.
     await (emit LogProjectCreated) (\<lambda>_.
       emit (ConsoleLog ''See the README.md file for some example tasks you can run.''))))"

definition createProject :: "env \<Rightarrow> unit io" where
  "createProject E =
     await printAsciiLogo (\<lambda>_.
     await (printWelcomeMessage E) (\<lambda>_.
     await (getAction E) (\<lambda>action.
       if action = QUIT_ACTION then resolved ()
       else
         await (fsExtra_pathExists E (Relative [''package.json''])) (\<lambda>present.
         await (if present then resolved () else createPackageJson E) (\<lambda>_.
           case action of
             QUIT_ACTION \<Rightarrow> resolved ()
           | CREATE_EMPTY_HARDHAT_CONFIG_ACTION \<Rightarrow> createProject_emptyConfig E
           | SampleProject projectType \<Rightarrow>
               await (createProject_responses E) (\<lambda>responses.
                 case responses of
                   None \<Rightarrow> resolved ()
                 | Some (projectRoot, shouldAddGitIgnore) \<Rightarrow>
                     await (copySampleProject E projectRoot projectType) (\<lambda>_.
                     await (if shouldAddGitIgnore then addGitIgnore E projectRoot
                            else resolved ()) (\<lambda>_.
                     await (createProject_telemetry E) (\<lambda>_.
                       createProject_finish E projectType)))))))))"

subsection \<open>The tiers of an action\<close>

text \<open>
  The sample projects that an action lays down, in the order they are copied: the basic
  one alone, the basic and the advanced one, or these two and the advanced TypeScript
  one. The names are those of the directories under \<open>sample-projects\<close>.
\<close>

fun requestedTiers :: "SampleProjectTypeCreationAction \<Rightarrow> string list" where
  "requestedTiers CREATE_BASIC_SAMPLE_PROJECT_ACTION = [''basic'']"
| "requestedTiers CREATE_ADVANCED_SAMPLE_PROJECT_ACTION = [''basic'', ''advanced'']"
| "requestedTiers CREATE_ADVANCED_TYPESCRIPT_SAMPLE_PROJECT_ACTION =
     [''basic'', ''advanced'', ''advanced-ts'']"

subsection \<open>The required and the missing dependencies\<close>

text \<open>
  The required set of an action is the framework package at \<open>^\<close> followed by the running
  version, and the entries of the action's table. The names a manifest declares are the
  keys of its three sections \<open>dependencies\<close>, \<open>devDependencies\<close> and
  \<open>optionalDependencies\<close>, a section that is absent declaring none. The missing set is
  the required entries whose names the manifest does not declare. These three follow
  the description of the reconciliation, not the code of \<open>isInstalled\<close>.
\<close>

definition requiredDependencies ::
  "env \<Rightarrow> SampleProjectTypeCreationAction \<Rightarrow> Dependencies" where
  "requiredDependencies E t =
     (HARDHAT_PACKAGE_NAME, ''^'' @ packageVersion E) # SAMPLE_PROJECT_DEPENDENCIES t"

fun sectionNames :: "Dependencies option \<Rightarrow> string set" where
  "sectionNames None = {}"
| "sectionNames (Some entries) = fst ` set entries"

definition manifestNames :: "PackageJson \<Rightarrow> string set" where
  "manifestNames pkg =
     sectionNames (dependencies pkg) \<union> sectionNames (devDependencies pkg) \<union>
     sectionNames (optionalDependencies pkg)"

definition missingDependencies :: "PackageJson \<Rightarrow> Dependencies \<Rightarrow> Dependencies" where
  "missingDependencies pkg required =
     filter (\<lambda>(name, _). name \<notin> manifestNames pkg) required"

subsection \<open>A small installation to run the wizard on\<close>

text \<open>
  The package ships its three sample projects under \<open>/pkg/sample-projects\<close>. \<open>/work/proj\<close>
  is an empty directory, \<open>/work/taken\<close> holds a \<open>hardhat.config.js\<close> of the user's,
  \<open>/home/user\<close> is empty, \<open>/home/full\<close> has a manifest that lists the framework and every
  dependency of the basic project, spread over its three sections, and \<open>/home/hh\<close> one
  that lists the framework alone, as an optional dependency.
\<close>

definition sampleProjects :: node where
  "sampleProjects = Dir
     [(''basic'', Dir
        [(''LICENSE.md'', File ''MIT''),
         (''README.md'', File ''basic readme''),
         (''contracts'', Dir [(''Greeter.sol'', File ''contract Greeter'')]),
         (''hardhat.config.js'', File ''basic config''),
         (''scripts'', Dir [(''sample-script.js'', File ''basic script'')]),
         (''test'', Dir [(''sample-test.js'', File ''basic test'')])]),
      (''advanced'', Dir
        [(''README.md'', File ''advanced readme''),
         (''hardhat.config.js'', File ''advanced config''),
         (''npmignore'', File ''advanced ignore''),
         (''scripts'', Dir [(''deploy.js'', File ''advanced deploy'')])]),
      (''advanced-ts'', Dir
        [(''hardhat.config.ts'', File ''typed config''),
         (''npmignore'', File ''typed ignore''),
         (''scripts'', Dir [(''deploy.ts'', File ''typed deploy'')]),
         (''test'', Dir [(''index.ts'', File ''typed test'')]),
         (''tsconfig.json'', File ''tsconfig'')])]"

definition sampleEntries :: "string \<Rightarrow> (string \<times> node) list" where
  "sampleEntries tier =
     (case lookup sampleProjects [tier] of Some (Dir es) \<Rightarrow> es | _ \<Rightarrow> [])"

definition exampleFs :: node where
  "exampleFs = Dir
     [(''pkg'', Dir [(''sample-projects'', sampleProjects)]),
      (''home'', Dir
        [(''user'', Dir []),
         (''full'', Dir [(''package.json'', File ''full manifest'')]),
         (''hh'', Dir [(''package.json'', File ''framework only'')])]),
      (''work'', Dir
        [(''proj'', Dir []),
         (''taken'', Dir [(''hardhat.config.js'', File ''mine''),
                          (''notes.txt'', File ''notes'')])])]"

definition emptyManifest :: PackageJson where
  "emptyManifest =
     \<lparr>dependencies = None, devDependencies = None, optionalDependencies = None\<rparr>"

definition fullManifest :: PackageJson where
  "fullManifest =
     \<lparr>dependencies = Some [(''hardhat'', ''^2.9.0''), (''chai'', ''^4.2.0'')],
      devDependencies = Some [(''@nomiclabs/hardhat-waffle'', ''^2.0.0''),
                              (''ethereum-waffle'', ''^3.0.0'')],
      optionalDependencies = Some [(''@nomiclabs/hardhat-ethers'', ''^2.0.0''),
                                   (''ethers'', ''^5.0.0'')]\<rparr>"

definition frameworkOnlyManifest :: PackageJson where
  "frameworkOnlyManifest =
     \<lparr>dependencies = None,
      devDependencies = None,
      optionalDependencies = Some [(''hardhat'', ''^2.9.0'')]\<rparr>"

definition exampleJsonParse :: "string \<Rightarrow> PackageJson option" where
  "exampleJsonParse text =
     (if text = defaultPackageJsonText then Some emptyManifest
      else if text = ''full manifest'' then Some fullManifest
      else if text = ''framework only'' then Some frameworkOnlyManifest
      else None)"

definition exampleEnv :: env where
  "exampleEnv =
     \<lparr>HARDHAT_CREATE_BASIC_SAMPLE_PROJECT_WITH_DEFAULTS = None,
      HARDHAT_CREATE_ADVANCED_SAMPLE_PROJECT_WITH_DEFAULTS = None,
      HARDHAT_CREATE_ADVANCED_TYPESCRIPT_SAMPLE_PROJECT_WITH_DEFAULTS = None,
      osType = ''Linux'',
      osEOL = NL,
      cwd = [''home'', ''user''],
      packageRoot = [''pkg''],
      packageVersion = ''2.9.0'',
      DEFAULT_SOLC_VERSION = ''0.7.3'',
      recommendedGitIgnore = ''node_modules'',
      jsonParse = exampleJsonParse,
      enquirerAction = Inr ''Create a basic sample project'',
      confirmProjectCreation = Inr (Absolute [''work'', ''proj''], True),
      confirmTelemetryConsent = Inr (Some False),
      confirmRecommendedDepsInstallation = Inr True,
      childProcess = Close (Some 0)\<rparr>"

definition exampleWorld :: world where
  "exampleWorld = \<lparr>fs = exampleFs, trace = [], telemetryConsent = None\<rparr>"

section \<open>Properties\<close>

subsection \<open>Promises\<close>

lemma await_resolved [simp]: "await (resolved x) f = f x"
  by (rule ext) (simp add: await_def resolved_def)

lemma await_rejected [simp]: "await (rejected e) f = rejected e"
  by (rule ext) (simp add: await_def rejected_def)

lemma await_Inr: "m w = (Inr x, w') \<Longrightarrow> await m f w = f x w'"
  by (simp add: await_def)

lemma await_Inl: "m w = (Inl e, w') \<Longrightarrow> await m f w = (Inl e, w')"
  by (simp add: await_def)

lemma await_emit: "await (emit ev) f w = f () (w\<lparr>trace := trace w @ [ev]\<rparr>)"
  by (simp add: await_def emit_def)

subsection \<open>The dependency tables\<close>

lemma BASIC_entries:
  "BASIC_SAMPLE_PROJECT_DEPENDENCIES =
     [(''@nomiclabs/hardhat-waffle'', ''^2.0.0''),
      (''ethereum-waffle'', ''^3.0.0''),
      (''chai'', ''^4.2.0''),
      (''@nomiclabs/hardhat-ethers'', ''^2.0.0''),
      (''ethers'', ''^5.0.0'')]"
  by (simp add: BASIC_SAMPLE_PROJECT_DEPENDENCIES_def spread_def)

lemma ADVANCED_entries:
  "ADVANCED_SAMPLE_PROJECT_DEPENDENCIES =
     BASIC_SAMPLE_PROJECT_DEPENDENCIES @
     [(''@nomiclabs/hardhat-etherscan'', ''^3.0.0''),
      (''dotenv'', ''^16.0.0''),
      (''eslint'', ''^7.29.0''),
      (''eslint-config-prettier'', ''^8.3.0''),
      (''eslint-config-standard'', ''^16.0.3''),
      (''eslint-plugin-import'', ''^2.23.4''),
      (''eslint-plugin-node'', ''^11.1.0''),
      (''eslint-plugin-prettier'', ''^3.4.0''),
      (''eslint-plugin-promise'', ''^5.1.0''),
      (''hardhat-gas-reporter'', ''^1.0.4''),
      (''prettier'', ''^2.3.2''),
      (''prettier-plugin-solidity'', ''^1.0.0-beta.13''),
      (''solhint'', ''^3.3.6''),
      (''solidity-coverage'', ''^0.7.16'')]"
  by (simp add: ADVANCED_SAMPLE_PROJECT_DEPENDENCIES_def BASIC_entries spread_def)

lemma TYPESCRIPT_entries:
  "ADVANCED_TYPESCRIPT_SAMPLE_PROJECT_DEPENDENCIES =
     ADVANCED_SAMPLE_PROJECT_DEPENDENCIES @
     [(''@typechain/ethers-v5'', ''^7.0.1''),
      (''@typechain/hardhat'', ''^2.3.0''),
      (''@typescript-eslint/eslint-plugin'', ''^4.29.1''),
      (''@typescript-eslint/parser'', ''^4.29.1''),
      (''@types/chai'', ''^4.2.21''),
      (''@types/node'', ''^12.0.0''),
      (''@types/mocha'', ''^9.0.0''),
      (''ts-node'', ''^10.1.0''),
      (''typechain'', ''^5.1.2''),
      (''typescript'', ''^4.5.2'')]"
  by (simp add: ADVANCED_TYPESCRIPT_SAMPLE_PROJECT_DEPENDENCIES_def ADVANCED_entries BASIC_entries spread_def)

lemma getDependencies_entries:
  "getDependencies E projectType w =
     (Inr ((HARDHAT_PACKAGE_NAME, ''^'' @ packageVersion E) #
             SAMPLE_PROJECT_DEPENDENCIES projectType), w)"
  by (cases projectType)
     (simp_all add: getDependencies_def resolved_def HARDHAT_PACKAGE_NAME_def spread_def
        TYPESCRIPT_entries ADVANCED_entries BASIC_entries)

lemma basic_names_in_advanced:
  "fst ` set BASIC_SAMPLE_PROJECT_DEPENDENCIES
     \<subset> fst ` set ADVANCED_SAMPLE_PROJECT_DEPENDENCIES"
proof
  show "fst ` set BASIC_SAMPLE_PROJECT_DEPENDENCIES
     \<subseteq> fst ` set ADVANCED_SAMPLE_PROJECT_DEPENDENCIES"
    by (auto simp: ADVANCED_entries)
  have "''dotenv'' \<in> fst ` set ADVANCED_SAMPLE_PROJECT_DEPENDENCIES"
    by (simp add: ADVANCED_entries)
  moreover have "''dotenv'' \<notin> fst ` set BASIC_SAMPLE_PROJECT_DEPENDENCIES"
    by (simp add: BASIC_entries)
  ultimately show "fst ` set BASIC_SAMPLE_PROJECT_DEPENDENCIES
     \<noteq> fst ` set ADVANCED_SAMPLE_PROJECT_DEPENDENCIES"
    by metis
qed

lemma advanced_names_in_typescript:
  "fst ` set ADVANCED_SAMPLE_PROJECT_DEPENDENCIES
     \<subset> fst ` set ADVANCED_TYPESCRIPT_SAMPLE_PROJECT_DEPENDENCIES"
proof
  show "fst ` set ADVANCED_SAMPLE_PROJECT_DEPENDENCIES
     \<subseteq> fst ` set ADVANCED_TYPESCRIPT_SAMPLE_PROJECT_DEPENDENCIES"
    by (auto simp: TYPESCRIPT_entries)
  have "''typescript'' \<in> fst ` set ADVANCED_TYPESCRIPT_SAMPLE_PROJECT_DEPENDENCIES"
    by (simp add: TYPESCRIPT_entries)
  moreover have "''typescript'' \<notin> fst ` set ADVANCED_SAMPLE_PROJECT_DEPENDENCIES"
    by (simp add: ADVANCED_entries BASIC_entries)
  ultimately show "fst ` set ADVANCED_SAMPLE_PROJECT_DEPENDENCIES
     \<noteq> fst ` set ADVANCED_TYPESCRIPT_SAMPLE_PROJECT_DEPENDENCIES"
    by metis
qed

lemma hardhat_not_in_typescript_table:
  "HARDHAT_PACKAGE_NAME \<notin> fst ` set ADVANCED_TYPESCRIPT_SAMPLE_PROJECT_DEPENDENCIES"
  by (simp add: HARDHAT_PACKAGE_NAME_def TYPESCRIPT_entries ADVANCED_entries BASIC_entries)

lemma insert_strict:
  assumes "A \<subset> B" and "x \<notin> B"
  shows "insert x A \<subset> insert x B"
proof -
  from assms(1) obtain y where y: "y \<in> B" "y \<notin> A" by blast
  from assms(1) have sub: "A \<subseteq> B" by blast
  from y assms(2) have "y \<noteq> x" by blast
  with y have "y \<in> insert x B" "y \<notin> insert x A" by simp_all
  then have "insert x A \<noteq> insert x B" by blast
  moreover from sub have "insert x A \<subseteq> insert x B" by blast
  ultimately show ?thesis by blast
qed

text \<open>
  Claim C7. The required sets are strictly nested by tier. For every environment, the
  required set that \<open>getDependencies\<close> returns for the basic action is contained in the
  one it returns for the advanced action, and that one in the one for the advanced
  TypeScript action, entry by entry, and each inclusion of the name sets is strict. The
  same holds of the three tables, which are the tables the three actions are mapped to.
  For every tier-creating action the required set is the action's table together with
  \<open>hardhat\<close> mapped to \<open>^\<close> followed by the version of the running package.
\<close>

theorem required_dependencies_nested:
  "\<exists>basic advanced typed.
     getDependencies E CREATE_BASIC_SAMPLE_PROJECT_ACTION w = (Inr basic, w) \<and>
     getDependencies E CREATE_ADVANCED_SAMPLE_PROJECT_ACTION w = (Inr advanced, w) \<and>
     getDependencies E CREATE_ADVANCED_TYPESCRIPT_SAMPLE_PROJECT_ACTION w = (Inr typed, w) \<and>
     fst ` set basic \<subset> fst ` set advanced \<and>
     fst ` set advanced \<subset> fst ` set typed \<and>
     set basic \<subseteq> set advanced \<and>
     set advanced \<subseteq> set typed \<and>
     SAMPLE_PROJECT_DEPENDENCIES CREATE_BASIC_SAMPLE_PROJECT_ACTION
       = BASIC_SAMPLE_PROJECT_DEPENDENCIES \<and>
     SAMPLE_PROJECT_DEPENDENCIES CREATE_ADVANCED_SAMPLE_PROJECT_ACTION
       = ADVANCED_SAMPLE_PROJECT_DEPENDENCIES \<and>
     SAMPLE_PROJECT_DEPENDENCIES CREATE_ADVANCED_TYPESCRIPT_SAMPLE_PROJECT_ACTION
       = ADVANCED_TYPESCRIPT_SAMPLE_PROJECT_DEPENDENCIES \<and>
     fst ` set BASIC_SAMPLE_PROJECT_DEPENDENCIES
       \<subset> fst ` set ADVANCED_SAMPLE_PROJECT_DEPENDENCIES \<and>
     fst ` set ADVANCED_SAMPLE_PROJECT_DEPENDENCIES
       \<subset> fst ` set ADVANCED_TYPESCRIPT_SAMPLE_PROJECT_DEPENDENCIES \<and>
     set BASIC_SAMPLE_PROJECT_DEPENDENCIES \<subseteq> set ADVANCED_SAMPLE_PROJECT_DEPENDENCIES \<and>
     set ADVANCED_SAMPLE_PROJECT_DEPENDENCIES
       \<subseteq> set ADVANCED_TYPESCRIPT_SAMPLE_PROJECT_DEPENDENCIES \<and>
     (\<exists>deps. getDependencies E projectType w = (Inr deps, w) \<and>
        map_of deps HARDHAT_PACKAGE_NAME = Some (''^'' @ packageVersion E) \<and>
        set deps = {(HARDHAT_PACKAGE_NAME, ''^'' @ packageVersion E)} \<union>
                   set (SAMPLE_PROJECT_DEPENDENCIES projectType))"
proof -
  let ?h = "(HARDHAT_PACKAGE_NAME, ''^'' @ packageVersion E)"
  let ?basic = "?h # BASIC_SAMPLE_PROJECT_DEPENDENCIES"
  let ?advanced = "?h # ADVANCED_SAMPLE_PROJECT_DEPENDENCIES"
  let ?typed = "?h # ADVANCED_TYPESCRIPT_SAMPLE_PROJECT_DEPENDENCIES"
  have g1: "getDependencies E CREATE_BASIC_SAMPLE_PROJECT_ACTION w = (Inr ?basic, w)"
    by (simp add: getDependencies_entries)
  have g2: "getDependencies E CREATE_ADVANCED_SAMPLE_PROJECT_ACTION w = (Inr ?advanced, w)"
    by (simp add: getDependencies_entries)
  have g3: "getDependencies E CREATE_ADVANCED_TYPESCRIPT_SAMPLE_PROJECT_ACTION w
              = (Inr ?typed, w)"
    by (simp add: getDependencies_entries)
  have ht: "HARDHAT_PACKAGE_NAME
              \<notin> fst ` set ADVANCED_TYPESCRIPT_SAMPLE_PROJECT_DEPENDENCIES"
    by (rule hardhat_not_in_typescript_table)
  with advanced_names_in_typescript
  have ha: "HARDHAT_PACKAGE_NAME \<notin> fst ` set ADVANCED_SAMPLE_PROJECT_DEPENDENCIES"
    by blast
  have n1: "fst ` set ?basic \<subset> fst ` set ?advanced"
    using insert_strict [OF basic_names_in_advanced ha] by simp
  have n2: "fst ` set ?advanced \<subset> fst ` set ?typed"
    using insert_strict [OF advanced_names_in_typescript ht] by simp
  have e1: "set BASIC_SAMPLE_PROJECT_DEPENDENCIES \<subseteq> set ADVANCED_SAMPLE_PROJECT_DEPENDENCIES"
    by (auto simp: ADVANCED_entries)
  have e2: "set ADVANCED_SAMPLE_PROJECT_DEPENDENCIES
     \<subseteq> set ADVANCED_TYPESCRIPT_SAMPLE_PROJECT_DEPENDENCIES"
    by (auto simp: TYPESCRIPT_entries)
  have s1: "set ?basic \<subseteq> set ?advanced" using e1 by auto
  have s2: "set ?advanced \<subseteq> set ?typed" using e2 by auto
  have each: "\<exists>deps. getDependencies E projectType w = (Inr deps, w) \<and>
      map_of deps HARDHAT_PACKAGE_NAME = Some (''^'' @ packageVersion E) \<and>
      set deps = {(HARDHAT_PACKAGE_NAME, ''^'' @ packageVersion E)} \<union>
                 set (SAMPLE_PROJECT_DEPENDENCIES projectType)"
    by (simp add: getDependencies_entries)
  show ?thesis
    apply (rule exI [of _ ?basic])
    apply (rule exI [of _ ?advanced])
    apply (rule exI [of _ ?typed])
    apply (intro conjI g1 g2 g3 n1 n2 s1 s2 e1 e2 each basic_names_in_advanced
             advanced_names_in_typescript SAMPLE_PROJECT_DEPENDENCIES.simps)
    done
qed

subsection \<open>Action selection\<close>

text \<open>
  Claim C9. \<open>getAction\<close> reads the three environment variables in a fixed order: the basic
  one decides when it is set, whatever the two others hold; the advanced one decides when
  the basic one is unset; the TypeScript one when both others are unset. In each case the
  action is returned with the state as it was: no prompt is shown.
\<close>

theorem getAction_priority:
  "(defined (HARDHAT_CREATE_BASIC_SAMPLE_PROJECT_WITH_DEFAULTS E) \<longrightarrow>
      getAction E w = (Inr (SampleProject CREATE_BASIC_SAMPLE_PROJECT_ACTION), w)) \<and>
   (\<not> defined (HARDHAT_CREATE_BASIC_SAMPLE_PROJECT_WITH_DEFAULTS E) \<and>
    defined (HARDHAT_CREATE_ADVANCED_SAMPLE_PROJECT_WITH_DEFAULTS E) \<longrightarrow>
      getAction E w = (Inr (SampleProject CREATE_ADVANCED_SAMPLE_PROJECT_ACTION), w)) \<and>
   (\<not> defined (HARDHAT_CREATE_BASIC_SAMPLE_PROJECT_WITH_DEFAULTS E) \<and>
    \<not> defined (HARDHAT_CREATE_ADVANCED_SAMPLE_PROJECT_WITH_DEFAULTS E) \<and>
    defined (HARDHAT_CREATE_ADVANCED_TYPESCRIPT_SAMPLE_PROJECT_WITH_DEFAULTS E) \<longrightarrow>
      getAction E w =
        (Inr (SampleProject CREATE_ADVANCED_TYPESCRIPT_SAMPLE_PROJECT_ACTION), w))"
  by (simp add: getAction_def resolved_def)

theorem getAction_priority_witness:
  "getAction
     (exampleEnv\<lparr>HARDHAT_CREATE_BASIC_SAMPLE_PROJECT_WITH_DEFAULTS := Some ''1'',
                 HARDHAT_CREATE_ADVANCED_SAMPLE_PROJECT_WITH_DEFAULTS := Some ''1'',
                 HARDHAT_CREATE_ADVANCED_TYPESCRIPT_SAMPLE_PROJECT_WITH_DEFAULTS := Some ''1''\<rparr>)
     exampleWorld
     = (Inr (SampleProject CREATE_BASIC_SAMPLE_PROJECT_ACTION), exampleWorld) \<and>
   getAction
     (exampleEnv\<lparr>HARDHAT_CREATE_ADVANCED_SAMPLE_PROJECT_WITH_DEFAULTS := Some ''1'',
                 HARDHAT_CREATE_ADVANCED_TYPESCRIPT_SAMPLE_PROJECT_WITH_DEFAULTS := Some ''1''\<rparr>)
     exampleWorld
     = (Inr (SampleProject CREATE_ADVANCED_SAMPLE_PROJECT_ACTION), exampleWorld) \<and>
   getAction
     (exampleEnv\<lparr>HARDHAT_CREATE_ADVANCED_TYPESCRIPT_SAMPLE_PROJECT_WITH_DEFAULTS := Some ''1''\<rparr>)
     exampleWorld
     = (Inr (SampleProject CREATE_ADVANCED_TYPESCRIPT_SAMPLE_PROJECT_ACTION), exampleWorld)"
  using
    getAction_priority [of
      "exampleEnv\<lparr>HARDHAT_CREATE_BASIC_SAMPLE_PROJECT_WITH_DEFAULTS := Some ''1'',
                  HARDHAT_CREATE_ADVANCED_SAMPLE_PROJECT_WITH_DEFAULTS := Some ''1'',
                  HARDHAT_CREATE_ADVANCED_TYPESCRIPT_SAMPLE_PROJECT_WITH_DEFAULTS := Some ''1''\<rparr>"
      exampleWorld]
    getAction_priority [of
      "exampleEnv\<lparr>HARDHAT_CREATE_ADVANCED_SAMPLE_PROJECT_WITH_DEFAULTS := Some ''1'',
                  HARDHAT_CREATE_ADVANCED_TYPESCRIPT_SAMPLE_PROJECT_WITH_DEFAULTS := Some ''1''\<rparr>"
      exampleWorld]
    getAction_priority [of
      "exampleEnv\<lparr>HARDHAT_CREATE_ADVANCED_TYPESCRIPT_SAMPLE_PROJECT_WITH_DEFAULTS := Some ''1''\<rparr>"
      exampleWorld]
  by (simp add: exampleEnv_def)

subsection \<open>The install command\<close>

lemma isYarnProject_eq:
  "isYarnProject E w = (Inr (lookup (fs w) (cwd E @ [''yarn.lock'']) \<noteq> None), w)"
  by (simp add: isYarnProject_def fsExtra_pathExists_def split: option.splits)

lemma installation_command_eq:
  "getRecommendedDependenciesInstallationCommand E deps q w =
     (Inr ((if lookup (fs w) (cwd E @ [''yarn.lock'']) \<noteq> None
            then [''yarn'', ''add'', ''--dev''] else [''npm'', ''install'', ''--save-dev'']) @
           map (\<lambda>(name, version).
                  if q then DQ @ name @ ''@'' @ version @ DQ else name @ ''@'' @ version) deps),
      w)"
  by (simp add: getRecommendedDependenciesInstallationCommand_def Let_def await_def
        isYarnProject_eq resolved_def)

lemma quoted_differs: "DQ @ n @ ''@'' @ v @ DQ \<noteq> n @ ''@'' @ v"
proof
  assume "DQ @ n @ ''@'' @ v @ DQ = n @ ''@'' @ v"
  then have "length (DQ @ n @ ''@'' @ v @ DQ) = length (n @ ''@'' @ v)" by simp
  then show False by (simp add: DQ_def)
qed


lemma installDependencies_eq:
  "installDependencies E pm args w =
     ((case childProcess E of
         Close status \<Rightarrow> if status = Some 0 then Inr True else Inl (ThrownBoolean False)
       | ChildError \<Rightarrow> Inl (ThrownBoolean False)),
      w\<lparr>trace := trace w @ [ConsoleLog (pm @ '' '' @ joinWith '' '' args), Spawn pm args]\<rparr>)"
  by (simp add: installDependencies_def await_emit resolved_def rejected_def
        split: childProcessEvent.splits)

lemma installRecommendedDependencies_eq:
  "installRecommendedDependencies E deps w =
     installDependencies E
       (if lookup (fs w) (cwd E @ [''yarn.lock'']) \<noteq> None then ''yarn'' else ''npm'')
       ((if lookup (fs w) (cwd E @ [''yarn.lock'']) \<noteq> None
         then [''add'', ''--dev''] else [''install'', ''--save-dev'']) @
        map (\<lambda>(name, version). name @ ''@'' @ version) deps)
       (w\<lparr>trace := trace w @ [ConsoleLog []]\<rparr>)"
  unfolding installRecommendedDependencies_def await_emit
  by (simp add: await_def installation_command_eq)


lemma token_quoted_iff:
  "((if q then DQ @ n @ ''@'' @ v @ DQ else n @ ''@'' @ v) = DQ @ n @ ''@'' @ v @ DQ) = q"
proof (cases q)
  case True then show ?thesis by simp
next
  case False
  have "n @ ''@'' @ v \<noteq> DQ @ n @ ''@'' @ v @ DQ"
    using quoted_differs [of n v] by (rule not_sym)
  with False show ?thesis by (simp only: if_False)
qed

lemma token_plain_iff:
  "((if q then DQ @ n @ ''@'' @ v @ DQ else n @ ''@'' @ v) = n @ ''@'' @ v) = (\<not> q)"
proof (cases q)
  case True
  with quoted_differs [of n v] show ?thesis by (simp only: if_True simp_thms)
next
  case False then show ?thesis by simp
qed

lemma nth_after_head: "length h = 3 \<Longrightarrow> (h @ xs) ! (3 + i) = xs ! i"
  by (simp add: nth_append)

lemma list_of_four: "length xs = 3 + length [y] \<Longrightarrow> xs = take 3 xs @ [xs ! 3]"
proof -
  assume "length xs = 3 + length [y]"
  then have l: "length xs = Suc 3" by simp
  have "take (Suc 3) xs = take 3 xs @ [xs ! 3]"
    by (rule take_Suc_conv_app_nth) (simp add: l)
  moreover have "take (Suc 3) xs = xs" using l by (simp only: take_all order_refl)
  ultimately show ?thesis by (simp only:)
qed

text \<open>
  Claim C8. For every dependency mapping, the command built is \<open>yarn add --dev\<close> followed
  by one token per entry exactly when \<open>yarn.lock\<close> exists (in the working directory), and
  \<open>npm install --save-dev\<close> followed by the tokens otherwise. Each token is the entry's
  \<open>name@range\<close> wrapped in double quotes if and only if the quote flag is true.
  \<open>installRecommendedDependencies\<close> spawns the first word of that command with the rest
  as arguments, every token unquoted.
\<close>

theorem installation_command_shape:
  "\<exists>cmd. getRecommendedDependenciesInstallationCommand E deps q w = (Inr cmd, w) \<and>
     length cmd = 3 + length deps \<and>
     (take 3 cmd = [''yarn'', ''add'', ''--dev'']
        \<longleftrightarrow> lookup (fs w) (cwd E @ [''yarn.lock'']) \<noteq> None) \<and>
     (take 3 cmd = [''npm'', ''install'', ''--save-dev'']
        \<longleftrightarrow> lookup (fs w) (cwd E @ [''yarn.lock'']) = None) \<and>
     (\<forall>i < length deps.
        (cmd ! (3 + i) = DQ @ fst (deps ! i) @ ''@'' @ snd (deps ! i) @ DQ \<longleftrightarrow> q) \<and>
        (cmd ! (3 + i) = fst (deps ! i) @ ''@'' @ snd (deps ! i) \<longleftrightarrow> \<not> q)) \<and>
     (\<exists>packageManager sub flag line.
        trace (snd (installRecommendedDependencies E deps w)) =
          trace w @
          [ConsoleLog [], ConsoleLog line,
           Spawn packageManager
             ([sub, flag] @ map (\<lambda>(name, version). name @ ''@'' @ version) deps)] \<and>
        [packageManager, sub, flag] = take 3 cmd)"
proof -
  let ?yarn = "lookup (fs w) (cwd E @ [''yarn.lock'']) \<noteq> None"
  let ?head = "if ?yarn then [''yarn'', ''add'', ''--dev'']
               else [''npm'', ''install'', ''--save-dev'']"
  let ?tok = "\<lambda>(name, version).
                if q then DQ @ name @ ''@'' @ version @ DQ else name @ ''@'' @ version"
  define cmd where "cmd = ?head @ map ?tok deps"
  have run: "getRecommendedDependenciesInstallationCommand E deps q w = (Inr cmd, w)"
    unfolding cmd_def by (rule installation_command_eq)
  have len: "length cmd = 3 + length deps" by (simp add: cmd_def)
  have tk: "take 3 cmd = ?head" by (simp add: cmd_def)
  have hd1: "take 3 cmd = [''yarn'', ''add'', ''--dev''] \<longleftrightarrow> ?yarn"
    unfolding tk by simp
  have hd2: "take 3 cmd = [''npm'', ''install'', ''--save-dev'']
               \<longleftrightarrow> lookup (fs w) (cwd E @ [''yarn.lock'']) = None"
    unfolding tk by simp
  have toks: "\<forall>i < length deps.
        (cmd ! (3 + i) = DQ @ fst (deps ! i) @ ''@'' @ snd (deps ! i) @ DQ \<longleftrightarrow> q) \<and>
        (cmd ! (3 + i) = fst (deps ! i) @ ''@'' @ snd (deps ! i) \<longleftrightarrow> \<not> q)"
  proof (intro allI impI)
    fix i assume i: "i < length deps"
    have l3: "length ?head = 3" by simp
    have "cmd ! (3 + i) = map ?tok deps ! i"
      unfolding cmd_def using l3 by (rule nth_after_head)
    then have nth: "cmd ! (3 + i) = ?tok (deps ! i)"
      using i by simp
    obtain n v where nv: "deps ! i = (n, v)" by (cases "deps ! i")
    show "(cmd ! (3 + i) = DQ @ fst (deps ! i) @ ''@'' @ snd (deps ! i) @ DQ \<longleftrightarrow> q) \<and>
        (cmd ! (3 + i) = fst (deps ! i) @ ''@'' @ snd (deps ! i) \<longleftrightarrow> \<not> q)"
      unfolding nth nv prod.case fst_conv snd_conv token_quoted_iff token_plain_iff
      by simp
  qed
  have spawn: "\<exists>packageManager sub flag line.
        trace (snd (installRecommendedDependencies E deps w)) =
          trace w @
          [ConsoleLog [], ConsoleLog line,
           Spawn packageManager
             ([sub, flag] @ map (\<lambda>(name, version). name @ ''@'' @ version) deps)] \<and>
        [packageManager, sub, flag] = take 3 cmd"
    unfolding tk installRecommendedDependencies_eq installDependencies_eq
    by (cases ?yarn) simp_all
  show ?thesis
    by (rule exI [of _ cmd]) (intro conjI run len hd1 hd2 toks spawn)
qed

theorem installation_command_shape_witness:
  "getRecommendedDependenciesInstallationCommand exampleEnv [(''chai'', ''^4.2.0'')] True
     exampleWorld =
     (Inr [''npm'', ''install'', ''--save-dev'', DQ @ ''chai@^4.2.0'' @ DQ], exampleWorld) \<and>
   trace (snd (installRecommendedDependencies exampleEnv [(''chai'', ''^4.2.0'')] exampleWorld)) =
     [ConsoleLog [], ConsoleLog ''npm install --save-dev chai@^4.2.0'',
      Spawn ''npm'' [''install'', ''--save-dev'', ''chai@^4.2.0'']]"
proof -
  have nolock: "lookup (fs exampleWorld) (cwd exampleEnv @ [''yarn.lock'']) = None"
    by (simp add: exampleWorld_def exampleEnv_def exampleFs_def)
  from installation_command_shape [of exampleEnv "[(''chai'', ''^4.2.0'')]" True exampleWorld]
  obtain cmd where all:
    "getRecommendedDependenciesInstallationCommand exampleEnv [(''chai'', ''^4.2.0'')] True
            exampleWorld = (Inr cmd, exampleWorld) \<and>
     length cmd = 3 + length [(''chai'', ''^4.2.0'')] \<and>
     (take 3 cmd = [''yarn'', ''add'', ''--dev'']
        \<longleftrightarrow> lookup (fs exampleWorld) (cwd exampleEnv @ [''yarn.lock'']) \<noteq> None) \<and>
     (take 3 cmd = [''npm'', ''install'', ''--save-dev'']
                \<longleftrightarrow> lookup (fs exampleWorld) (cwd exampleEnv @ [''yarn.lock'']) = None) \<and>
     (\<forall>i < length [(''chai'', ''^4.2.0'')].
        (cmd ! (3 + i) = DQ @ fst ([(''chai'', ''^4.2.0'')] ! i) @ ''@'' @
                          snd ([(''chai'', ''^4.2.0'')] ! i) @ DQ \<longleftrightarrow> True) \<and>
        (cmd ! (3 + i) = fst ([(''chai'', ''^4.2.0'')] ! i) @ ''@'' @
                          snd ([(''chai'', ''^4.2.0'')] ! i) \<longleftrightarrow> \<not> True)) \<and>
     (\<exists>packageManager sub flag line.
        trace (snd (installRecommendedDependencies exampleEnv [(''chai'', ''^4.2.0'')] exampleWorld)) =
          trace exampleWorld @
          [ConsoleLog [], ConsoleLog line,
           Spawn packageManager
             ([sub, flag] @ map (\<lambda>(name, version). name @ ''@'' @ version) [(''chai'', ''^4.2.0'')])] \<and>
        [packageManager, sub, flag] = take 3 cmd)" ..
  note run = all [THEN conjunct1]
  note len = all [THEN conjunct2, THEN conjunct1]
  note npm = all [THEN conjunct2, THEN conjunct2, THEN conjunct2, THEN conjunct1]
  note tok = all [THEN conjunct2, THEN conjunct2, THEN conjunct2, THEN conjunct2, THEN conjunct1]
  have t3: "take 3 cmd = [''npm'', ''install'', ''--save-dev'']" using npm nolock by simp
  have "cmd ! (3 + 0) = DQ @ fst ([(''chai'', ''^4.2.0'')] ! 0) @ ''@'' @
                          snd ([(''chai'', ''^4.2.0'')] ! 0) @ DQ"
    using tok [rule_format, of 0] by simp
  then have c3: "cmd ! 3 = DQ @ ''chai@^4.2.0'' @ DQ" by simp
  have cmd: "cmd = [''npm'', ''install'', ''--save-dev'', DQ @ ''chai@^4.2.0'' @ DQ]"
    using list_of_four [OF len] unfolding t3 c3 by simp
  have line: "trace (snd (installRecommendedDependencies exampleEnv [(''chai'', ''^4.2.0'')] exampleWorld)) =
     [ConsoleLog [], ConsoleLog ''npm install --save-dev chai@^4.2.0'',
      Spawn ''npm'' [''install'', ''--save-dev'', ''chai@^4.2.0'']]"
    unfolding installRecommendedDependencies_eq installDependencies_eq nolock
    by (simp add: exampleWorld_def)
  from run cmd line show ?thesis by simp
qed

subsection \<open>Template composition\<close>

lemma singleton_list: "set xs = {a} \<Longrightarrow> distinct xs \<Longrightarrow> xs = [a]"
proof (cases xs)
  case Nil
  assume "set xs = {a}" with Nil show ?thesis by simp
next
  case (Cons y ys)
  assume s: "set xs = {a}" and d: "distinct xs"
  from s Cons have y: "y = a" by auto
  from s Cons have sub: "set ys \<subseteq> {a}" by auto
  from d Cons y have notin: "a \<notin> set ys" by simp
  have "ys = []"
  proof (cases ys)
    case Nil then show ?thesis .
  next
    case (Cons z zs)
    with sub have "z = a" by simp
    with Cons notin show ?thesis by simp
  qed
  with Cons y show ?thesis by simp
qed

lemma set_uniqInto: "set (uniqInto seen xs) = set seen \<union> set xs"
  by (induction xs arbitrary: seen) auto

lemma distinct_uniqInto: "distinct seen \<Longrightarrow> distinct (uniqInto seen xs)"
  by (induction xs arbitrary: seen) auto

lemma set_lodash_union: "set (lodash_union arrays) = (\<Union>xs \<in> set arrays. set xs)"
  by (simp add: lodash_union_def set_uniqInto)

lemma set_lodash_intersection: "set (lodash_intersection xs ys) = set xs \<inter> set ys"
  by (auto simp: lodash_intersection_def set_uniqInto)

lemma distinct_lodash_intersection: "distinct (lodash_intersection xs ys)"
  by (simp add: lodash_intersection_def distinct_uniqInto)

lemma readdirSync_directory:
  "lookup (fs w) (resolve (cwd E) p) = Some (Dir es) \<Longrightarrow>
   fsExtra_readdirSync E p w = (Inr (map fst es), w)"
  by (simp add: fsExtra_readdirSync_def)

lemma readdirSync_missing:
  "lookup (fs w) (resolve (cwd E) p) = None \<Longrightarrow>
   fsExtra_readdirSync E p w = (Inl (FsError ENOENT (resolve (cwd E) p)), w)"
  by (simp add: fsExtra_readdirSync_def)

lemma checkForDuplicates_listed:
  assumes dest: "lookup (fs w) (resolve (cwd E) projectRoot) = Some (Dir entries)"
    and src: "\<forall>tier \<in> set (requestedTiers projectType).
                lookup (fs w) (packageRoot E @ [''sample-projects'', tier])
                  = Some (Dir (tierEntries tier))"
  shows "\<exists>duplicates.
     set duplicates =
       (\<Union>tier \<in> set (requestedTiers projectType). fst ` set (tierEntries tier))
       \<inter> fst ` set entries \<and>
     distinct duplicates \<and>
     checkForDuplicates E projectRoot projectType w =
       (if duplicates = [] then (Inr (), w)
        else (Inl (HardhatError_CONFLICTING_FILES projectRoot
                     (joinWith (osEOL E) (map (\<lambda>n. ''  '' @ n) duplicates))), w))"
proof -
  have d: "fsExtra_readdirSync E projectRoot w = (Inr (map fst entries), w)"
    using dest by (rule readdirSync_directory)
  have t: "tier \<in> set (requestedTiers projectType) \<Longrightarrow>
     fsExtra_readdirSync E (join (join (Absolute (packageRoot E)) [''sample-projects'']) [tier]) w
       = (Inr (map fst (tierEntries tier)), w)" for tier
    using src by (intro readdirSync_directory) simp
  have indent: "(\<lambda>n. CHR '' '' # CHR '' '' # n) = (@) ''  ''"
    by (rule ext) simp
  define srcFiles where "srcFiles =
    (case projectType of
       CREATE_BASIC_SAMPLE_PROJECT_ACTION \<Rightarrow> map fst (tierEntries ''basic'')
     | CREATE_ADVANCED_SAMPLE_PROJECT_ACTION \<Rightarrow>
         lodash_union [map fst (tierEntries ''basic''), map fst (tierEntries ''advanced'')]
     | CREATE_ADVANCED_TYPESCRIPT_SAMPLE_PROJECT_ACTION \<Rightarrow>
         lodash_union [map fst (tierEntries ''basic''), map fst (tierEntries ''advanced''),
                       map fst (tierEntries ''advanced-ts'')])"
  have srcset: "set srcFiles =
      (\<Union>tier \<in> set (requestedTiers projectType). fst ` set (tierEntries tier))"
    by (cases projectType) (simp_all add: srcFiles_def set_lodash_union)
  have run: "checkForDuplicates E projectRoot projectType w =
       (if lodash_intersection srcFiles (map fst entries) = [] then (Inr (), w)
        else (Inl (HardhatError_CONFLICTING_FILES projectRoot
                     (joinWith (osEOL E)
                        (map (\<lambda>n. ''  '' @ n)
                           (lodash_intersection srcFiles (map fst entries))))), w))"
  proof (cases projectType)
    case CREATE_BASIC_SAMPLE_PROJECT_ACTION
    then show ?thesis
      using d t [of "''basic''"]
      by (simp add: checkForDuplicates_def Let_def await_def resolved_def rejected_def
            srcFiles_def indent)
  next
    case CREATE_ADVANCED_SAMPLE_PROJECT_ACTION
    then show ?thesis
      using d t [of "''basic''"] t [of "''advanced''"]
      by (simp add: checkForDuplicates_def Let_def await_def resolved_def rejected_def
            srcFiles_def indent)
  next
    case CREATE_ADVANCED_TYPESCRIPT_SAMPLE_PROJECT_ACTION
    then show ?thesis
      using d t [of "''basic''"] t [of "''advanced''"] t [of "''advanced-ts''"]
      by (simp add: checkForDuplicates_def Let_def await_def resolved_def rejected_def
            srcFiles_def indent)
  qed
  show ?thesis
    by (rule exI [of _ "lodash_intersection srcFiles (map fst entries)"])
       (simp add: run set_lodash_intersection distinct_lodash_intersection srcset)
qed

text \<open>
  Claim C1. Let the destination be a directory and let the sample projects of the chosen
  action be directories of the package. If a name listed in the destination is also
  listed in one of these sample projects, \<open>copySampleProject\<close> is rejected with the
  conflicting-files error, which carries the destination path and, one per line, every
  name that the destination shares with the union of the requested tiers, each once; the
  state is the one before the call: nothing has been copied or written.
\<close>

theorem conflict_aborts_before_copy:
  assumes dest: "lookup (fs w) (resolve (cwd E) projectRoot) = Some (Dir entries)"
    and src: "\<forall>tier \<in> set (requestedTiers projectType).
                lookup (fs w) (packageRoot E @ [''sample-projects'', tier])
                  = Some (Dir (tierEntries tier))"
    and clash: "(\<Union>tier \<in> set (requestedTiers projectType). fst ` set (tierEntries tier))
                  \<inter> fst ` set entries \<noteq> {}"
  shows "\<exists>conflicts.
     set conflicts =
       (\<Union>tier \<in> set (requestedTiers projectType). fst ` set (tierEntries tier))
       \<inter> fst ` set entries \<and>
     distinct conflicts \<and>
     copySampleProject E projectRoot projectType w =
       (Inl (HardhatError_CONFLICTING_FILES projectRoot
               (joinWith (osEOL E) (map (\<lambda>n. ''  '' @ n) conflicts))), w)"
proof -
  from checkForDuplicates_listed [OF dest src] obtain duplicates where
    s: "set duplicates =
       (\<Union>tier \<in> set (requestedTiers projectType). fst ` set (tierEntries tier))
       \<inter> fst ` set entries"
    and dis: "distinct duplicates"
    and run: "checkForDuplicates E projectRoot projectType w =
       (if duplicates = [] then (Inr (), w)
        else (Inl (HardhatError_CONFLICTING_FILES projectRoot
                     (joinWith (osEOL E) (map (\<lambda>n. ''  '' @ n) duplicates))), w))"
    by blast
  have "set duplicates \<noteq> {}" unfolding s by (rule clash)
  then have "duplicates \<noteq> []" by auto
  with run have "checkForDuplicates E projectRoot projectType w =
     (Inl (HardhatError_CONFLICTING_FILES projectRoot
             (joinWith (osEOL E) (map (\<lambda>n. ''  '' @ n) duplicates))), w)"
    by (simp only: if_False)
  then have "copySampleProject E projectRoot projectType w =
     (Inl (HardhatError_CONFLICTING_FILES projectRoot
             (joinWith (osEOL E) (map (\<lambda>n. ''  '' @ n) duplicates))), w)"
    unfolding copySampleProject_def Let_def by (rule await_Inl)
  with s dis show ?thesis by blast
qed

text \<open>
  Claim C4 (not met by the code). The claim wants the listing of a destination that does
  not exist to be empty. \<open>checkForDuplicates\<close> lists the destination with
  \<open>readdirSync\<close> before \<open>copySampleProject\<close> reaches \<open>ensureDir\<close>, so for a root that
  is not there the check is rejected with \<open>ENOENT\<close>, and so is the whole composition,
  whatever the sample projects hold. The witness adds that \<open>ensureDir\<close>, the next call of
  \<open>copySampleProject\<close>, would have created that root.
\<close>

theorem missing_root_fails_listing:
  assumes "lookup (fs w) (resolve (cwd E) projectRoot) = None"
  shows "checkForDuplicates E projectRoot projectType w =
           (Inl (FsError ENOENT (resolve (cwd E) projectRoot)), w) \<and>
         copySampleProject E projectRoot projectType w =
           (Inl (FsError ENOENT (resolve (cwd E) projectRoot)), w)"
proof -
  have "fsExtra_readdirSync E projectRoot w = (Inl (FsError ENOENT (resolve (cwd E) projectRoot)), w)"
    using assms by (rule readdirSync_missing)
  then have c: "checkForDuplicates E projectRoot projectType w =
           (Inl (FsError ENOENT (resolve (cwd E) projectRoot)), w)"
    unfolding checkForDuplicates_def Let_def by (rule await_Inl)
  then have "copySampleProject E projectRoot projectType w =
           (Inl (FsError ENOENT (resolve (cwd E) projectRoot)), w)"
    unfolding copySampleProject_def Let_def by (rule await_Inl)
  with c show ?thesis by simp
qed


theorem conflict_aborts_before_copy_witness:
  "copySampleProject exampleEnv (Absolute [''work'', ''taken''])
     CREATE_ADVANCED_TYPESCRIPT_SAMPLE_PROJECT_ACTION exampleWorld =
   (Inl (HardhatError_CONFLICTING_FILES (Absolute [''work'', ''taken''])
           ''  hardhat.config.js''), exampleWorld)"
proof -
  let ?entries = "[(''hardhat.config.js'', File ''mine''), (''notes.txt'', File ''notes'')]"
  have dest: "lookup (fs exampleWorld) (resolve (cwd exampleEnv) (Absolute [''work'', ''taken'']))
                = Some (Dir ?entries)"
    by (simp add: exampleWorld_def exampleFs_def)
  have src: "\<forall>tier \<in> set (requestedTiers CREATE_ADVANCED_TYPESCRIPT_SAMPLE_PROJECT_ACTION).
                lookup (fs exampleWorld) (packageRoot exampleEnv @ [''sample-projects'', tier])
                  = Some (Dir (sampleEntries tier))"
    by (simp add: exampleWorld_def exampleEnv_def exampleFs_def sampleEntries_def
          sampleProjects_def)
  have names: "(\<Union>tier \<in> set (requestedTiers CREATE_ADVANCED_TYPESCRIPT_SAMPLE_PROJECT_ACTION).
                  fst ` set (sampleEntries tier)) \<inter> fst ` set ?entries
               = {''hardhat.config.js''}"
    by code_simp
  then have clash: "(\<Union>tier \<in> set (requestedTiers CREATE_ADVANCED_TYPESCRIPT_SAMPLE_PROJECT_ACTION).
                  fst ` set (sampleEntries tier)) \<inter> fst ` set ?entries \<noteq> {}"
    by simp
  from conflict_aborts_before_copy [OF dest src clash] obtain conflicts where
    s: "set conflicts =
       (\<Union>tier \<in> set (requestedTiers CREATE_ADVANCED_TYPESCRIPT_SAMPLE_PROJECT_ACTION).
          fst ` set (sampleEntries tier)) \<inter> fst ` set ?entries"
    and d: "distinct conflicts"
    and run: "copySampleProject exampleEnv (Absolute [''work'', ''taken''])
       CREATE_ADVANCED_TYPESCRIPT_SAMPLE_PROJECT_ACTION exampleWorld =
       (Inl (HardhatError_CONFLICTING_FILES (Absolute [''work'', ''taken''])
               (joinWith (osEOL exampleEnv) (map (\<lambda>n. ''  '' @ n) conflicts))), exampleWorld)"
    by blast
  from s names have "set conflicts = {''hardhat.config.js''}" by simp
  then have "conflicts = [''hardhat.config.js'']" using d by (rule singleton_list)
  with run show ?thesis by simp
qed

theorem missing_root_fails_listing_witness:
  "checkForDuplicates exampleEnv (Absolute [''work'', ''new''])
     CREATE_BASIC_SAMPLE_PROJECT_ACTION exampleWorld =
     (Inl (FsError ENOENT [''work'', ''new'']), exampleWorld) \<and>
   copySampleProject exampleEnv (Absolute [''work'', ''new''])
     CREATE_BASIC_SAMPLE_PROJECT_ACTION exampleWorld =
     (Inl (FsError ENOENT [''work'', ''new'']), exampleWorld) \<and>
   fst (fsExtra_ensureDir exampleEnv (Absolute [''work'', ''new'']) exampleWorld) = Inr ()"
proof -
  have "lookup (fs exampleWorld) (resolve (cwd exampleEnv) (Absolute [''work'', ''new''])) = None"
    by (simp add: exampleWorld_def exampleFs_def)
  from missing_root_fails_listing [OF this, of CREATE_BASIC_SAMPLE_PROJECT_ACTION]
  have "checkForDuplicates exampleEnv (Absolute [''work'', ''new''])
     CREATE_BASIC_SAMPLE_PROJECT_ACTION exampleWorld =
     (Inl (FsError ENOENT [''work'', ''new'']), exampleWorld) \<and>
   copySampleProject exampleEnv (Absolute [''work'', ''new''])
     CREATE_BASIC_SAMPLE_PROJECT_ACTION exampleWorld =
     (Inl (FsError ENOENT [''work'', ''new'']), exampleWorld)"
    by simp
  moreover have "fst (fsExtra_ensureDir exampleEnv (Absolute [''work'', ''new'']) exampleWorld) = Inr ()"
    by code_simp
  ultimately show ?thesis by simp
qed

text \<open>
  Claim C3 (not met by the code). The advanced TypeScript action is run on the empty
  directory \<open>/work/proj\<close> while the process works in \<open>/home/user\<close>. The three script
  files are removed by paths relative to the working directory, not to the project
  root, so all three are still in the project when \<open>copySampleProject\<close> is done; the
  staged \<open>npmignore\<close> is renamed as claimed. The lemma after it runs the same action with
  the project root as working directory, where the three files are gone.
\<close>

theorem typed_project_keeps_script_files:
  "fst (copySampleProject exampleEnv (Absolute [''work'', ''proj''])
          CREATE_ADVANCED_TYPESCRIPT_SAMPLE_PROJECT_ACTION exampleWorld) = Inr () \<and>
   lookup (fs exampleWorld) [''work'', ''proj''] = Some (Dir []) \<and>
   lookup (fs (snd (copySampleProject exampleEnv (Absolute [''work'', ''proj''])
          CREATE_ADVANCED_TYPESCRIPT_SAMPLE_PROJECT_ACTION exampleWorld)))
     [''work'', ''proj'', ''hardhat.config.js''] = Some (File ''advanced config'') \<and>
   lookup (fs (snd (copySampleProject exampleEnv (Absolute [''work'', ''proj''])
          CREATE_ADVANCED_TYPESCRIPT_SAMPLE_PROJECT_ACTION exampleWorld)))
     [''work'', ''proj'', ''scripts'', ''deploy.js''] = Some (File ''advanced deploy'') \<and>
   lookup (fs (snd (copySampleProject exampleEnv (Absolute [''work'', ''proj''])
          CREATE_ADVANCED_TYPESCRIPT_SAMPLE_PROJECT_ACTION exampleWorld)))
     [''work'', ''proj'', ''test'', ''sample-test.js''] = Some (File ''basic test'') \<and>
   lookup (fs (snd (copySampleProject exampleEnv (Absolute [''work'', ''proj''])
          CREATE_ADVANCED_TYPESCRIPT_SAMPLE_PROJECT_ACTION exampleWorld)))
     [''work'', ''proj'', ''.npmignore''] = Some (File ''typed ignore'')"
  by code_simp

lemma typed_project_in_working_directory:
  "fst (copySampleProject (exampleEnv\<lparr>cwd := [''work'', ''proj'']\<rparr>) (Absolute [''work'', ''proj''])
          CREATE_ADVANCED_TYPESCRIPT_SAMPLE_PROJECT_ACTION exampleWorld) = Inr () \<and>
   lookup (fs (snd (copySampleProject (exampleEnv\<lparr>cwd := [''work'', ''proj'']\<rparr>)
          (Absolute [''work'', ''proj''])
          CREATE_ADVANCED_TYPESCRIPT_SAMPLE_PROJECT_ACTION exampleWorld)))
     [''work'', ''proj'', ''hardhat.config.js''] = None \<and>
   lookup (fs (snd (copySampleProject (exampleEnv\<lparr>cwd := [''work'', ''proj'']\<rparr>)
          (Absolute [''work'', ''proj''])
          CREATE_ADVANCED_TYPESCRIPT_SAMPLE_PROJECT_ACTION exampleWorld)))
     [''work'', ''proj'', ''scripts''] = Some (Dir [(''deploy.ts'', File ''typed deploy'')]) \<and>
   lookup (fs (snd (copySampleProject (exampleEnv\<lparr>cwd := [''work'', ''proj'']\<rparr>)
          (Absolute [''work'', ''proj''])
          CREATE_ADVANCED_TYPESCRIPT_SAMPLE_PROJECT_ACTION exampleWorld)))
     [''work'', ''proj'', ''test''] = Some (Dir [(''index.ts'', File ''typed test'')])"
  by code_simp

subsection \<open>Cancelling the wizard\<close>

lemma map_of_assign_same: "map_of (assign es k v) k = Some v"
  by (induction es) auto

lemma putNode_in_directory:
  "lookup t p = Some (Dir es) \<Longrightarrow>
   \<exists>t'. putNode t (p @ [s]) new = Inr t' \<and> lookup t' (p @ [s]) = Some new"
proof (induction p arbitrary: t)
  case Nil
  then show ?case by (simp add: map_of_assign_same)
next
  case (Cons a p)
  from Cons.prems obtain ds c where t: "t = Dir ds" and c: "map_of ds a = Some c"
    and l: "lookup c p = Some (Dir es)"
    by (cases t) (auto split: option.splits)
  from Cons.IH [OF l] obtain c' where
    p: "putNode c (p @ [s]) new = Inr c'" and l': "lookup c' (p @ [s]) = Some new"
    by blast
  show ?case using t c p l' by (simp add: map_of_assign_same)
qed

lemma getAction_prompted:
  assumes "\<not> useDefaultPromptResponses E"
  shows "getAction E w =
     ((case enquirerAction E of
         Inl e \<Rightarrow> if e = ThrownString [] then Inr QUIT_ACTION else Inl e
       | Inr response \<Rightarrow>
           (case actionOfString response of
              Some a \<Rightarrow> Inr a
            | None \<Rightarrow> Inl (HardhatError_UNSUPPORTED_OPERATION
                          (''Responding with '' @ DQ @ response @ DQ @
                           '' to the project initialization wizard'')))),
      w\<lparr>trace := trace w @ [PromptAction]\<rparr>)"
  using assms
  by (simp add: getAction_def useDefaultPromptResponses_def tryCatch_def emit_def
        settled_def resolved_def rejected_def await_def del: actionOfString.simps
        split: sum.splits option.splits)

lemma responses_cancelled:
  assumes "\<not> useDefaultPromptResponses E"
    and "confirmProjectCreation E = Inl (ThrownString [])"
  shows "createProject_responses E w =
           (Inr None, w\<lparr>trace := trace w @ [PromptProjectCreation]\<rparr>)"
  using assms
  by (simp add: createProject_responses_def tryCatch_def emit_def settled_def
        rejected_def resolved_def await_def)

lemma cancel_after_manifest_written:
  assumes nodefaults: "\<not> useDefaultPromptResponses E"
    and chosen: "enquirerAction E = Inr response"
                "actionOfString response = Some (SampleProject projectType)"
    and cancelled: "confirmProjectCreation E = Inl (ThrownString [])"
    and wd: "lookup (fs w) (cwd E) = Some (Dir entries)"
    and absent: "lookup (fs w) (cwd E @ [''package.json'']) = None"
  shows "\<exists>tree.
     createProject E w =
       (Inr (), w\<lparr>fs := tree,
                   trace := trace w @ [LogAsciiLogo, LogWelcome (packageVersion E),
                                       PromptAction, PromptProjectCreation]\<rparr>) \<and>
     putNode (fs w) (cwd E @ [''package.json'']) (File defaultPackageJsonText) = Inr tree \<and>
     lookup tree (cwd E @ [''package.json'']) = Some (File defaultPackageJsonText) \<and>
     tree \<noteq> fs w"
proof -
  from putNode_in_directory [OF wd] obtain tree where
    put: "putNode (fs w) (cwd E @ [''package.json'']) (File defaultPackageJsonText) = Inr tree"
    and look: "lookup tree (cwd E @ [''package.json'']) = Some (File defaultPackageJsonText)"
    by blast
  from look absent have changed: "tree \<noteq> fs w" by auto
  let ?w1 = "w\<lparr>trace := trace w @ [LogAsciiLogo, LogWelcome (packageVersion E)]\<rparr>"
  let ?w2 = "w\<lparr>trace := trace w @ [LogAsciiLogo, LogWelcome (packageVersion E), PromptAction]\<rparr>"
  have act: "getAction E ?w1 = (Inr (SampleProject projectType), ?w2)"
    using chosen by (simp add: getAction_prompted [OF nodefaults])
  have ex: "fsExtra_pathExists E (Relative [''package.json'']) ?w2 = (Inr False, ?w2)"
    using absent by (simp add: fsExtra_pathExists_def)
  have cr: "createPackageJson E ?w2 = (Inr (), ?w2\<lparr>fs := tree\<rparr>)"
    using absent put by (simp add: createPackageJson_def fsExtra_writeFile_def)
  have rs: "createProject_responses E (?w2\<lparr>fs := tree\<rparr>) =
      (Inr None, ?w2\<lparr>fs := tree, trace := trace ?w2 @ [PromptProjectCreation]\<rparr>)"
    by (simp add: responses_cancelled [OF nodefaults cancelled])
  have "createProject E w =
       (Inr (), w\<lparr>fs := tree,
                   trace := trace w @ [LogAsciiLogo, LogWelcome (packageVersion E),
                                       PromptAction, PromptProjectCreation]\<rparr>)"
    unfolding createProject_def printAsciiLogo_def printWelcomeMessage_def await_emit
    apply (simp add: await_Inr [where m = "getAction E", OF act])
    apply (simp add: await_Inr [where m = "fsExtra_pathExists E (Relative [''package.json''])", OF ex])
    apply (simp add: await_Inr [where m = "createPackageJson E", OF cr])
    apply (simp add: await_Inr [where m = "createProject_responses E", OF rs] resolved_def)
    done
  with put look changed show ?thesis by blast
qed

lemma quit_writes_nothing:
  assumes nodefaults: "\<not> useDefaultPromptResponses E"
    and quit: "enquirerAction E = Inr ''Quit'' \<or> enquirerAction E = Inl (ThrownString [])"
  shows "createProject E w =
       (Inr (), w\<lparr>trace := trace w @ [LogAsciiLogo, LogWelcome (packageVersion E),
                                       PromptAction]\<rparr>)"
proof -
  let ?w1 = "w\<lparr>trace := trace w @ [LogAsciiLogo, LogWelcome (packageVersion E)]\<rparr>"
  let ?w2 = "w\<lparr>trace := trace w @ [LogAsciiLogo, LogWelcome (packageVersion E), PromptAction]\<rparr>"
  have act: "getAction E ?w1 = (Inr QUIT_ACTION, ?w2)"
    using quit by (auto simp add: getAction_prompted [OF nodefaults])
  show ?thesis
    unfolding createProject_def printAsciiLogo_def printWelcomeMessage_def await_emit
    by (simp add: await_Inr [where m = "getAction E", OF act] resolved_def)
qed

lemma cancel_with_manifest:
  assumes nodefaults: "\<not> useDefaultPromptResponses E"
    and chosen: "enquirerAction E = Inr response"
                "actionOfString response = Some (SampleProject projectType)"
    and cancelled: "confirmProjectCreation E = Inl (ThrownString [])"
    and present: "lookup (fs w) (cwd E @ [''package.json'']) = Some n"
  shows "createProject E w =
       (Inr (), w\<lparr>trace := trace w @ [LogAsciiLogo, LogWelcome (packageVersion E),
                                       PromptAction, PromptProjectCreation]\<rparr>)"
proof -
  let ?w1 = "w\<lparr>trace := trace w @ [LogAsciiLogo, LogWelcome (packageVersion E)]\<rparr>"
  let ?w2 = "w\<lparr>trace := trace w @ [LogAsciiLogo, LogWelcome (packageVersion E), PromptAction]\<rparr>"
  have act: "getAction E ?w1 = (Inr (SampleProject projectType), ?w2)"
    using chosen by (simp add: getAction_prompted [OF nodefaults])
  have ex: "fsExtra_pathExists E (Relative [''package.json'']) ?w2 = (Inr True, ?w2)"
    using present by (simp add: fsExtra_pathExists_def)
  have rs: "createProject_responses E ?w2 =
      (Inr None, ?w2\<lparr>trace := trace ?w2 @ [PromptProjectCreation]\<rparr>)"
    by (simp add: responses_cancelled [OF nodefaults cancelled])
  show ?thesis
    unfolding createProject_def printAsciiLogo_def printWelcomeMessage_def await_emit
    apply (simp add: await_Inr [where m = "getAction E", OF act])
    apply (simp add: await_Inr [where m = "fsExtra_pathExists E (Relative [''package.json''])", OF ex])
    apply (simp add: await_Inr [where m = "createProject_responses E", OF rs] resolved_def)
    done
qed

text \<open>
  Claim C10. With none of the three variables set and the working directory in place:
  when the user picks a sample project and then cancels the project-root prompt (the
  prompt rejects with the empty string), \<open>createProject\<close> resolves without error, yet
  if the working directory had no \<open>package.json\<close> it has one now, holding the default
  manifest, so the file tree has changed; if it had one, the tree is as before. When the
  user picks Quit, or cancels the action prompt, \<open>createProject\<close> resolves with the tree
  untouched: that return comes before any write.
\<close>

theorem cancel_is_clean_but_writes_manifest:
  assumes nodefaults: "\<not> useDefaultPromptResponses E"
    and wd: "lookup (fs w) (cwd E) = Some (Dir entries)"
  shows
    "(enquirerAction E = Inr response \<and>
      actionOfString response = Some (SampleProject projectType) \<and>
      confirmProjectCreation E = Inl (ThrownString []) \<and>
      lookup (fs w) (cwd E @ [''package.json'']) = None \<longrightarrow>
        fst (createProject E w) = Inr () \<and>
        putNode (fs w) (cwd E @ [''package.json'']) (File defaultPackageJsonText)
          = Inr (fs (snd (createProject E w))) \<and>
        lookup (fs (snd (createProject E w))) (cwd E @ [''package.json''])
          = Some (File defaultPackageJsonText) \<and>
        fs (snd (createProject E w)) \<noteq> fs w \<and>
        trace (snd (createProject E w)) =
          trace w @ [LogAsciiLogo, LogWelcome (packageVersion E), PromptAction,
                     PromptProjectCreation]) \<and>
     (enquirerAction E = Inr response \<and>
      actionOfString response = Some (SampleProject projectType) \<and>
      confirmProjectCreation E = Inl (ThrownString []) \<and>
      lookup (fs w) (cwd E @ [''package.json'']) = Some n \<longrightarrow>
        fst (createProject E w) = Inr () \<and> fs (snd (createProject E w)) = fs w) \<and>
     (enquirerAction E = Inr ''Quit'' \<or> enquirerAction E = Inl (ThrownString []) \<longrightarrow>
        fst (createProject E w) = Inr () \<and> fs (snd (createProject E w)) = fs w \<and>
        trace (snd (createProject E w)) =
          trace w @ [LogAsciiLogo, LogWelcome (packageVersion E), PromptAction])"
proof (intro conjI impI)
  assume a: "enquirerAction E = Inr response \<and>
      actionOfString response = Some (SampleProject projectType) \<and>
      confirmProjectCreation E = Inl (ThrownString []) \<and>
      lookup (fs w) (cwd E @ [''package.json'']) = None"
  note a1 = a [THEN conjunct1]
  note a2 = a [THEN conjunct2, THEN conjunct1]
  note a3 = a [THEN conjunct2, THEN conjunct2, THEN conjunct1]
  note a4 = a [THEN conjunct2, THEN conjunct2, THEN conjunct2]
  from cancel_after_manifest_written [OF nodefaults a1 a2 a3 wd a4]
  obtain tree where all:
    "createProject E w =
       (Inr (), w\<lparr>fs := tree,
                   trace := trace w @ [LogAsciiLogo, LogWelcome (packageVersion E),
                                       PromptAction, PromptProjectCreation]\<rparr>) \<and>
     putNode (fs w) (cwd E @ [''package.json'']) (File defaultPackageJsonText) = Inr tree \<and>
     lookup tree (cwd E @ [''package.json'']) = Some (File defaultPackageJsonText) \<and>
     tree \<noteq> fs w" ..
  note run = all [THEN conjunct1]
  note put = all [THEN conjunct2, THEN conjunct1]
  note look = all [THEN conjunct2, THEN conjunct2, THEN conjunct1]
  note ch = all [THEN conjunct2, THEN conjunct2, THEN conjunct2]
  show "fst (createProject E w) = Inr ()" by (simp add: run)
  show "putNode (fs w) (cwd E @ [''package.json'']) (File defaultPackageJsonText)
          = Inr (fs (snd (createProject E w)))" by (simp add: run put)
  show "lookup (fs (snd (createProject E w))) (cwd E @ [''package.json''])
          = Some (File defaultPackageJsonText)" by (simp add: run look)
  show "fs (snd (createProject E w)) \<noteq> fs w" by (simp add: run ch)
  show "trace (snd (createProject E w)) =
          trace w @ [LogAsciiLogo, LogWelcome (packageVersion E), PromptAction,
                     PromptProjectCreation]" by (simp add: run)
next
  assume a: "enquirerAction E = Inr response \<and>
      actionOfString response = Some (SampleProject projectType) \<and>
      confirmProjectCreation E = Inl (ThrownString []) \<and>
      lookup (fs w) (cwd E @ [''package.json'']) = Some n"
  note run = cancel_with_manifest [OF nodefaults a [THEN conjunct1]
      a [THEN conjunct2, THEN conjunct1] a [THEN conjunct2, THEN conjunct2, THEN conjunct1]
      a [THEN conjunct2, THEN conjunct2, THEN conjunct2]]
  show "fst (createProject E w) = Inr ()" by (simp add: run)
  show "fs (snd (createProject E w)) = fs w" by (simp add: run)
next
  assume "enquirerAction E = Inr ''Quit'' \<or> enquirerAction E = Inl (ThrownString [])"
  note run = quit_writes_nothing [OF nodefaults this, of w]
  show "fst (createProject E w) = Inr ()" by (simp add: run)
  show "fs (snd (createProject E w)) = fs w" by (simp add: run)
  show "trace (snd (createProject E w)) =
          trace w @ [LogAsciiLogo, LogWelcome (packageVersion E), PromptAction]"
    by (simp add: run)
qed

theorem cancel_is_clean_but_writes_manifest_witness:
  "fst (createProject (exampleEnv\<lparr>confirmProjectCreation := Inl (ThrownString [])\<rparr>)
          exampleWorld) = Inr () \<and>
   lookup (fs exampleWorld) [''home'', ''user'', ''package.json''] = None \<and>
   lookup (fs (snd (createProject (exampleEnv\<lparr>confirmProjectCreation := Inl (ThrownString [])\<rparr>)
          exampleWorld))) [''home'', ''user'', ''package.json'']
     = Some (File defaultPackageJsonText) \<and>
   fst (createProject (exampleEnv\<lparr>enquirerAction := Inr ''Quit''\<rparr>) exampleWorld) = Inr () \<and>
   fs (snd (createProject (exampleEnv\<lparr>enquirerAction := Inr ''Quit''\<rparr>) exampleWorld))
     = fs exampleWorld"
proof -
  let ?E = "exampleEnv\<lparr>confirmProjectCreation := Inl (ThrownString [])\<rparr>"
  let ?Q = "exampleEnv\<lparr>enquirerAction := Inr ''Quit''\<rparr>"
  have nd: "\<not> useDefaultPromptResponses ?E" "\<not> useDefaultPromptResponses ?Q"
    by (simp_all add: exampleEnv_def useDefaultPromptResponses_def)
  have wd: "lookup (fs exampleWorld) (cwd ?E) = Some (Dir [])"
           "lookup (fs exampleWorld) (cwd ?Q) = Some (Dir [])"
    by (simp_all add: exampleEnv_def exampleWorld_def exampleFs_def)
  have absent: "lookup (fs exampleWorld) [''home'', ''user'', ''package.json''] = None"
    by (simp add: exampleWorld_def exampleFs_def)
  have c: "enquirerAction ?E = Inr ''Create a basic sample project'' \<and>
      actionOfString ''Create a basic sample project''
        = Some (SampleProject CREATE_BASIC_SAMPLE_PROJECT_ACTION) \<and>
      confirmProjectCreation ?E = Inl (ThrownString []) \<and>
      lookup (fs exampleWorld) (cwd ?E @ [''package.json'']) = None"
    using absent by (simp add: exampleEnv_def)
  have q: "enquirerAction ?Q = Inr ''Quit'' \<or> enquirerAction ?Q = Inl (ThrownString [])"
    by simp
  note t1 = cancel_is_clean_but_writes_manifest [OF nd(1) wd(1),
      of "''Create a basic sample project''" CREATE_BASIC_SAMPLE_PROJECT_ACTION "File []",
      THEN conjunct1, rule_format, OF c]
  note t2 = cancel_is_clean_but_writes_manifest [OF nd(2) wd(2),
      of "''Create a basic sample project''" CREATE_BASIC_SAMPLE_PROJECT_ACTION "File []",
      THEN conjunct2, THEN conjunct2, rule_format, OF q]
  have cw: "cwd ?E @ [''package.json''] = [''home'', ''user'', ''package.json'']"
    by (simp add: exampleEnv_def)
  from t1 t2 absent show ?thesis unfolding cw by simp
qed

subsection \<open>Reconciling the manifest and installing\<close>

lemma isInstalled_eq:
  assumes "lookup (fs w) (cwd E @ [''package.json'']) = Some (File text)"
    and "jsonParse E text = Some pkg"
  shows "isInstalled E dep w = (Inr (inOperator dep (allDependencies pkg)), w)"
  using assms
  by (simp add: isInstalled_def fsExtra_readJSONSync_def fsExtra_readFile_def await_def
        resolved_def)

lemma typescript_names_own:
  "list_all (\<lambda>n. n \<notin> set ObjectPrototypeProperties)
     (HARDHAT_PACKAGE_NAME # map fst ADVANCED_TYPESCRIPT_SAMPLE_PROJECT_DEPENDENCIES)"
  by code_simp

lemma typescript_names_distinct:
  "distinct (HARDHAT_PACKAGE_NAME # map fst ADVANCED_TYPESCRIPT_SAMPLE_PROJECT_DEPENDENCIES)"
  by code_simp

lemma table_prefix:
  "\<exists>rest. ADVANCED_TYPESCRIPT_SAMPLE_PROJECT_DEPENDENCIES =
           SAMPLE_PROJECT_DEPENDENCIES t @ rest"
proof (cases t)
  case CREATE_BASIC_SAMPLE_PROJECT_ACTION
  then show ?thesis
    by (simp only: SAMPLE_PROJECT_DEPENDENCIES.simps TYPESCRIPT_entries ADVANCED_entries
          append_assoc) blast
next
  case CREATE_ADVANCED_SAMPLE_PROJECT_ACTION
  then show ?thesis
    by (simp only: SAMPLE_PROJECT_DEPENDENCIES.simps TYPESCRIPT_entries) blast
next
  case CREATE_ADVANCED_TYPESCRIPT_SAMPLE_PROJECT_ACTION
  then show ?thesis by simp
qed

lemma required_names_distinct:
  "distinct (HARDHAT_PACKAGE_NAME # map fst (SAMPLE_PROJECT_DEPENDENCIES t))"
proof -
  from table_prefix [of t] obtain rest where
    r: "ADVANCED_TYPESCRIPT_SAMPLE_PROJECT_DEPENDENCIES = SAMPLE_PROJECT_DEPENDENCIES t @ rest"
    by blast
  show ?thesis using typescript_names_distinct unfolding r by auto
qed

lemma required_names_own:
  assumes "n \<in> set (HARDHAT_PACKAGE_NAME # map fst (SAMPLE_PROJECT_DEPENDENCIES t))"
  shows "n \<notin> set ObjectPrototypeProperties"
proof -
  from table_prefix [of t] obtain rest where
    r: "ADVANCED_TYPESCRIPT_SAMPLE_PROJECT_DEPENDENCIES = SAMPLE_PROJECT_DEPENDENCIES t @ rest"
    by blast
  from assms have "n \<in> set (HARDHAT_PACKAGE_NAME #
                      map fst ADVANCED_TYPESCRIPT_SAMPLE_PROJECT_DEPENDENCIES)"
    unfolding r by auto
  with typescript_names_own show ?thesis
    unfolding list_all_iff by blast
qed

lemma inOperator_required:
  assumes "n \<in> set (HARDHAT_PACKAGE_NAME # map fst (SAMPLE_PROJECT_DEPENDENCIES t))"
  shows "inOperator n obj = (n \<in> fst ` set obj)"
  using required_names_own [OF assms] by (simp add: inOperator_def)

lemma filterThrowing_pure:
  "(\<And>x. x \<in> set xs \<Longrightarrow> p x w = (Inr (q x), w)) \<Longrightarrow>
   filterThrowing p xs w = (Inr (filter q xs), w)"
  by (induction xs) (simp_all add: await_def resolved_def)

lemma assign_fresh: "k \<notin> fst ` set es \<Longrightarrow> assign es k v = es @ [(k, v)]"
  by (induction es) auto

lemma fold_assign_distinct:
  "distinct (map fst (acc @ xs)) \<Longrightarrow>
   fold (\<lambda>(k, v) acc. assign acc k v) xs acc = acc @ xs"
proof (induction xs arbitrary: acc)
  case Nil
  then show ?case by simp
next
  case (Cons x xs)
  obtain k v where x: "x = (k, v)" by (cases x)
  from Cons.prems x have fresh: "k \<notin> fst ` set acc" by auto
  from Cons.prems x have "distinct (map fst ((acc @ [(k, v)]) @ xs))" by simp
  from Cons.IH [OF this] show ?case
    using x fresh by (simp add: assign_fresh)
qed

lemma spread_distinct: "distinct (map fst xs) \<Longrightarrow> spread [] xs = xs"
  using fold_assign_distinct [of "[]" xs] by (simp add: spread_def)

lemma keys_assign: "fst ` set (assign es k v) = insert k (fst ` set es)"
proof (induction es)
  case Nil
  then show ?case by simp
next
  case (Cons e es)
  obtain a b where e: "e = (a, b)" by (cases e)
  show ?case unfolding e
    by (cases "a = k") (simp_all add: Cons.IH insert_commute)
qed

lemma keys_fold_assign:
  "fst ` set (fold (\<lambda>(k, v) acc. assign acc k v) xs acc) = fst ` set acc \<union> fst ` set xs"
proof (induction xs arbitrary: acc)
  case Nil
  then show ?case by simp
next
  case (Cons x xs)
  obtain k v where x: "x = (k, v)" by (cases x)
  show ?case unfolding x by (simp add: Cons.IH keys_assign)
qed

lemma keys_spread: "fst ` set (spread target source) = fst ` set target \<union> fst ` set source"
  by (simp add: spread_def keys_fold_assign)

lemma keys_orEmpty: "fst ` set (orEmpty entries) = sectionNames entries"
  by (cases entries) simp_all

text \<open>
  The object that \<open>isInstalled\<close> searches has a key for every name of the three sections
  of the manifest, and no other.
\<close>

lemma keys_allDependencies: "fst ` set (allDependencies pkg) = manifestNames pkg"
  by (simp add: allDependencies_def manifestNames_def keys_spread keys_orEmpty)

lemma canInstall_eq:
  "canInstallRecommendedDeps E w =
     (Inr (lookup (fs w) (cwd E @ [''package.json'']) \<noteq> None \<and> osType E \<noteq> ''Windows_NT''), w)"
  by (simp add: canInstallRecommendedDeps_def fsExtra_pathExists_def await_def resolved_def
        split: option.splits)

lemma install_reconciled:
  fixes E :: env and t :: SampleProjectTypeCreationAction and pkg :: PackageJson
  assumes manifest: "lookup (fs w) (cwd E @ [''package.json'']) = Some (File text)"
    and parse: "jsonParse E text = Some pkg"
    and gate: "osType E \<noteq> ''Windows_NT''"
  defines "deps \<equiv> (HARDHAT_PACKAGE_NAME, ''^'' @ packageVersion E) #
                     SAMPLE_PROJECT_DEPENDENCIES t"
    and "K \<equiv> manifestNames pkg"
  shows "createProject_install E t w =
     (if length (filter (\<lambda>n. n \<in> K) (map fst deps)) = length (map fst deps)
      then (Inr False, w)
      else if filter (\<lambda>n. n \<noteq> HARDHAT_PACKAGE_NAME) (filter (\<lambda>n. n \<in> K) (map fst deps)) = []
      then
        await
          (if useDefaultPromptResponses E then resolved True
           else await (emit (PromptRecommendedDepsInstallation
                               (filter (\<lambda>(n, _). n \<notin> K) deps))) (\<lambda>_.
                  settled (confirmRecommendedDepsInstallation E))) (\<lambda>shouldInstall.
          if shouldInstall then
            await (installRecommendedDependencies E (filter (\<lambda>(n, _). n \<notin> K) deps))
              (\<lambda>installed.
            await
              (if installed then resolved ()
               else emit (ConsoleWarn
                      (''Failed to install the sample project'' @ [CHR 0x27] @
                       ''s dependencies''))) (\<lambda>_.
              resolved (\<not> installed)))
          else resolved True) w
      else (Inr True, w))"
proof -
  have names: "set (map fst deps) =
      set (HARDHAT_PACKAGE_NAME # map fst (SAMPLE_PROJECT_DEPENDENCIES t))"
    by (simp add: deps_def)
  have can: "canInstallRecommendedDeps E w = (Inr True, w)"
    using manifest gate by (simp add: canInstall_eq)
  have gd: "getDependencies E t w = (Inr deps, w)"
    unfolding deps_def by (rule getDependencies_entries)
  have inst: "isInstalled E n w = (Inr (n \<in> K), w)" if "n \<in> set (map fst deps)" for n
    using that unfolding names K_def
    by (simp only: isInstalled_eq [OF manifest parse] inOperator_required
          keys_allDependencies)
  have f1: "filterThrowing (\<lambda>(name, _). await (isInstalled E name) (\<lambda>i. resolved (\<not> i)))
              deps w = (Inr (filter (\<lambda>(n, _). n \<notin> K) deps), w)"
  proof (rule filterThrowing_pure)
    fix x assume x: "x \<in> set deps"
    obtain n v where nv: "x = (n, v)" by (cases x)
    with x have "n \<in> set (map fst deps)" by force
    from inst [OF this] show "(case x of (name, _) \<Rightarrow>
             await (isInstalled E name) (\<lambda>i. resolved (\<not> i))) w =
         (Inr (case x of (n, _) \<Rightarrow> n \<notin> K), w)"
      by (simp add: nv await_def resolved_def)
  qed
  have f2: "filterThrowing (isInstalled E) (map fst deps) w =
              (Inr (filter (\<lambda>n. n \<in> K) (map fst deps)), w)"
    by (rule filterThrowing_pure) (rule inst)
  have "distinct (map fst deps)"
    using required_names_distinct [of t] by (simp add: deps_def)
  then have "distinct (map fst (filter (\<lambda>(n, _). n \<notin> K) deps))"
    by (rule distinct_map_filter)
  then have sp: "spread [] (filter (\<lambda>(n, _). n \<notin> K) deps) = filter (\<lambda>(n, _). n \<notin> K) deps"
    by (rule spread_distinct)
  show ?thesis
    unfolding createProject_install_def
    apply (simp only: await_Inr [where m = "canInstallRecommendedDeps E", OF can] if_True)
    apply (simp only: await_Inr [where m = "getDependencies E t", OF gd] Let_def)
    apply (simp only: await_Inr [where m = "filterThrowing (\<lambda>(name, _). await (isInstalled E name) (\<lambda>i. resolved (\<not> i))) deps", OF f1] sp)
    apply (simp only: await_Inr [where m = "filterThrowing (isInstalled E) (map fst deps)", OF f2])
    apply (simp only: if_distribR length_0_conv)
    apply (simp only: resolved_def)
    done
qed


lemma all_installed_length:
  assumes "set names \<subseteq> K"
  shows "length (filter (\<lambda>n. n \<in> K) names) = length names"
proof -
  have "filter (\<lambda>n. n \<in> K) names = names"
    using assms by (auto simp: filter_id_conv)
  then show ?thesis by simp
qed

lemma some_missing_length:
  assumes "n \<in> set names" and "n \<notin> K"
  shows "length (filter (\<lambda>n. n \<in> K) names) \<noteq> length names"
  using length_filter_less [of n names "\<lambda>n. n \<in> K"] assms by simp

lemma install_attempted:
  fixes E :: env and t :: SampleProjectTypeCreationAction and pkg :: PackageJson
  assumes manifest: "lookup (fs w) (cwd E @ [''package.json'']) = Some (File text)"
    and parse: "jsonParse E text = Some pkg"
    and gate: "osType E \<noteq> ''Windows_NT''"
    and framework_only:
      "set (HARDHAT_PACKAGE_NAME # map fst (SAMPLE_PROJECT_DEPENDENCIES t))
         \<inter> manifestNames pkg \<subseteq> {HARDHAT_PACKAGE_NAME}"
    and some_missing:
      "\<not> set (HARDHAT_PACKAGE_NAME # map fst (SAMPLE_PROJECT_DEPENDENCIES t))
           \<subseteq> manifestNames pkg"
    and confirmed:
      "useDefaultPromptResponses E \<or> confirmRecommendedDepsInstallation E = Inr True"
    and missing_def: "missing = missingDependencies pkg (requiredDependencies E t)"
    and packageManager_def: "packageManager =
      (if lookup (fs w) (cwd E @ [''yarn.lock'']) \<noteq> None then ''yarn'' else ''npm'')"
    and args_def: "args =
      (if lookup (fs w) (cwd E @ [''yarn.lock'']) \<noteq> None
       then [''add'', ''--dev''] else [''install'', ''--save-dev'']) @
      map (\<lambda>(name, version). name @ ''@'' @ version) missing"
  shows "createProject_install E t w =
     ((case childProcess E of
         Close status \<Rightarrow> if status = Some 0 then Inr False else Inl (ThrownBoolean False)
       | ChildError \<Rightarrow> Inl (ThrownBoolean False)),
      w\<lparr>trace := trace w @
           (if useDefaultPromptResponses E then []
            else [PromptRecommendedDepsInstallation missing]) @
           [ConsoleLog [],
            ConsoleLog (packageManager @ '' '' @ joinWith '' '' args),
            Spawn packageManager args]\<rparr>)"
proof -
  let ?K = "manifestNames pkg"
  let ?deps = "(HARDHAT_PACKAGE_NAME, ''^'' @ packageVersion E) # SAMPLE_PROJECT_DEPENDENCIES t"
  have names: "map fst ?deps = HARDHAT_PACKAGE_NAME # map fst (SAMPLE_PROJECT_DEPENDENCIES t)"
    by simp
  from some_missing obtain n where
    n: "n \<in> set (map fst ?deps)" "n \<notin> ?K"
    unfolding names by blast
  have ne: "length (filter (\<lambda>n. n \<in> ?K) (map fst ?deps)) \<noteq> length (map fst ?deps)"
    using n by (rule some_missing_length)
  have none_else: "filter (\<lambda>n. n \<noteq> HARDHAT_PACKAGE_NAME)
                     (filter (\<lambda>n. n \<in> ?K) (map fst ?deps)) = []"
    unfolding names filter_empty_conv using framework_only by auto
  have base: "createProject_install E t w =
      await
          (if useDefaultPromptResponses E then resolved True
           else await (emit (PromptRecommendedDepsInstallation missing)) (\<lambda>_.
                  settled (confirmRecommendedDepsInstallation E))) (\<lambda>shouldInstall.
          if shouldInstall then
            await (installRecommendedDependencies E missing)
              (\<lambda>installed.
            await
              (if installed then resolved ()
               else emit (ConsoleWarn
                      (''Failed to install the sample project'' @ [CHR 0x27] @
                       ''s dependencies''))) (\<lambda>_.
              resolved (\<not> installed)))
          else resolved True) w"
    unfolding install_reconciled [OF manifest parse gate] missing_def
      missingDependencies_def requiredDependencies_def
    using ne none_else by (simp only: if_False if_True simp_thms)
  let ?w1 = "w\<lparr>trace := trace w @
           (if useDefaultPromptResponses E then []
            else [PromptRecommendedDepsInstallation missing])\<rparr>"
  have ask: "(if useDefaultPromptResponses E then resolved True
           else await (emit (PromptRecommendedDepsInstallation missing)) (\<lambda>_.
                  settled (confirmRecommendedDepsInstallation E))) w = (Inr True, ?w1)"
    using confirmed
    by (auto simp add: resolved_def await_def emit_def settled_def)
  have yarn: "lookup (fs ?w1) (cwd E @ [''yarn.lock'']) = lookup (fs w) (cwd E @ [''yarn.lock''])"
    by simp
  have run: "installRecommendedDependencies E missing ?w1 =
     ((case childProcess E of
         Close status \<Rightarrow> if status = Some 0 then Inr True else Inl (ThrownBoolean False)
       | ChildError \<Rightarrow> Inl (ThrownBoolean False)),
      w\<lparr>trace := trace w @
           (if useDefaultPromptResponses E then []
            else [PromptRecommendedDepsInstallation missing]) @
           [ConsoleLog [],
            ConsoleLog (packageManager @ '' '' @ joinWith '' '' args),
            Spawn packageManager args]\<rparr>)"
    unfolding installRecommendedDependencies_eq installDependencies_eq yarn
      packageManager_def args_def
    by simp
  show ?thesis
    unfolding base
    apply (subst await_def)
    apply (simp only: ask prod.case sum.case if_True)
    apply (subst await_def)
    apply (simp only: run)
    apply (cases "childProcess E")
     apply (simp_all add: await_def resolved_def)
    done
qed

lemma satisfied_manifest_no_install:
  assumes manifest: "lookup (fs w) (cwd E @ [''package.json'']) = Some (File text)"
    and parse: "jsonParse E text = Some pkg"
    and gate: "osType E \<noteq> ''Windows_NT''"
    and nothing_missing: "missingDependencies pkg (requiredDependencies E t) = []"
  shows "createProject_install E t w = (Inr False, w) \<and>
         createProject_finish E t w =
           (Inr (), w\<lparr>trace := trace w @
              [LogProjectCreated,
               ConsoleLog ''See the README.md file for some example tasks you can run.'']\<rparr>)"
proof -
  let ?K = "manifestNames pkg"
  let ?deps = "(HARDHAT_PACKAGE_NAME, ''^'' @ packageVersion E) # SAMPLE_PROJECT_DEPENDENCIES t"
  from nothing_missing have "\<forall>x \<in> set ?deps. \<not> (case x of (name, _) \<Rightarrow> name \<notin> ?K)"
    unfolding missingDependencies_def requiredDependencies_def filter_empty_conv .
  then have "set (map fst ?deps) \<subseteq> ?K" by auto
  then have "length (filter (\<lambda>n. n \<in> ?K) (map fst ?deps)) = length (map fst ?deps)"
    by (rule all_installed_length)
  then have inst: "createProject_install E t w = (Inr False, w)"
    unfolding install_reconciled [OF manifest parse gate] by (simp only: if_True simp_thms)
  have "createProject_finish E t w =
           (Inr (), w\<lparr>trace := trace w @
              [LogProjectCreated,
               ConsoleLog ''See the README.md file for some example tasks you can run.'']\<rparr>)"
    unfolding createProject_finish_def
    by (simp add: await_Inr [where m = "createProject_install E t", OF inst] await_emit emit_def)
  with inst show ?thesis by simp
qed

lemma instructions_printed:
  "printRecommendedDepsInstallationInstructions E t w =
     (Inr (), w\<lparr>trace := trace w @
        [ConsoleLog ''You need to install these dependencies to run the sample project:'',
         ConsoleLog (''  '' @ joinWith '' ''
           ((if lookup (fs w) (cwd E @ [''yarn.lock'']) \<noteq> None
             then [''yarn'', ''add'', ''--dev''] else [''npm'', ''install'', ''--save-dev'']) @
            map (\<lambda>(name, version). DQ @ name @ ''@'' @ version @ DQ)
              (requiredDependencies E t)))]\<rparr>)"
  unfolding printRecommendedDepsInstallationInstructions_def await_emit
  by (simp add: await_def getDependencies_entries installation_command_eq emit_def
        requiredDependencies_def)

lemma windows_gate_shut:
  assumes "osType E = ''Windows_NT''"
  shows "createProject_install E t w = (Inr True, w)"
proof -
  have can: "canInstallRecommendedDeps E w = (Inr False, w)"
    using assms by (simp add: canInstall_eq)
  show ?thesis
    unfolding createProject_install_def
    by (simp add: await_Inr [where m = "canInstallRecommendedDeps E", OF can] resolved_def)
qed

lemma windows_prints_instructions:
  assumes "osType E = ''Windows_NT''"
  shows "createProject_finish E t w =
     (Inr (), w\<lparr>trace := trace w @
        [ConsoleLog [],
         ConsoleLog ''You need to install these dependencies to run the sample project:'',
         ConsoleLog (''  '' @ joinWith '' ''
           ((if lookup (fs w) (cwd E @ [''yarn.lock'']) \<noteq> None
             then [''yarn'', ''add'', ''--dev''] else [''npm'', ''install'', ''--save-dev'']) @
            map (\<lambda>(name, version). DQ @ name @ ''@'' @ version @ DQ)
              (requiredDependencies E t))),
         LogProjectCreated,
         ConsoleLog ''See the README.md file for some example tasks you can run.'']\<rparr>)"
  unfolding createProject_finish_def
  by (simp add: windows_gate_shut [OF assms] instructions_printed await_def emit_def)

text \<open>
  Claim C5 (as amended). The manifest that the run compares is \<open>package.json\<close> in the
  working directory of the process. Let it parse, and let the platform not be
  \<open>Windows_NT\<close>, so that the install gate is open: if no required dependency of the action
  is missing from it, the install step changes nothing (no prompt, no spawned
  installer, no line printed) and the run ends with the two closing lines alone, without
  the installation instructions. On \<open>Windows_NT\<close>, for every manifest and every action, the
  install step is skipped and the instructions for the whole required set are printed
  before the closing lines.
\<close>

theorem satisfied_manifest_skips_install:
  "(lookup (fs w) (cwd E @ [''package.json'']) = Some (File text) \<and>
    jsonParse E text = Some pkg \<and>
    osType E \<noteq> ''Windows_NT'' \<and>
    missingDependencies pkg (requiredDependencies E t) = [] \<longrightarrow>
      createProject_install E t w = (Inr False, w) \<and>
      createProject_finish E t w =
        (Inr (), w\<lparr>trace := trace w @
           [LogProjectCreated,
            ConsoleLog ''See the README.md file for some example tasks you can run.'']\<rparr>)) \<and>
   (osType E = ''Windows_NT'' \<longrightarrow>
      createProject_install E t w = (Inr True, w) \<and>
      createProject_finish E t w =
        (Inr (), w\<lparr>trace := trace w @
           [ConsoleLog [],
            ConsoleLog ''You need to install these dependencies to run the sample project:'',
            ConsoleLog (''  '' @ joinWith '' ''
              ((if lookup (fs w) (cwd E @ [''yarn.lock'']) \<noteq> None
                then [''yarn'', ''add'', ''--dev'']
                else [''npm'', ''install'', ''--save-dev'']) @
               map (\<lambda>(name, version). DQ @ name @ ''@'' @ version @ DQ)
                 (requiredDependencies E t))),
            LogProjectCreated,
            ConsoleLog ''See the README.md file for some example tasks you can run.'']\<rparr>))"
proof (intro conjI impI)
  assume a: "lookup (fs w) (cwd E @ [''package.json'']) = Some (File text) \<and>
    jsonParse E text = Some pkg \<and>
    osType E \<noteq> ''Windows_NT'' \<and>
    missingDependencies pkg (requiredDependencies E t) = []"
  note r = satisfied_manifest_no_install [OF a [THEN conjunct1]
      a [THEN conjunct2, THEN conjunct1] a [THEN conjunct2, THEN conjunct2, THEN conjunct1]
      a [THEN conjunct2, THEN conjunct2, THEN conjunct2]]
  show "createProject_install E t w = (Inr False, w)" by (rule r [THEN conjunct1])
  show "createProject_finish E t w =
        (Inr (), w\<lparr>trace := trace w @
           [LogProjectCreated,
            ConsoleLog ''See the README.md file for some example tasks you can run.'']\<rparr>)"
    by (rule r [THEN conjunct2])
next
  assume win: "osType E = ''Windows_NT''"
  show "createProject_install E t w = (Inr True, w)"
    using win by (rule windows_gate_shut)
  show "createProject_finish E t w =
        (Inr (), w\<lparr>trace := trace w @
           [ConsoleLog [],
            ConsoleLog ''You need to install these dependencies to run the sample project:'',
            ConsoleLog (''  '' @ joinWith '' ''
              ((if lookup (fs w) (cwd E @ [''yarn.lock'']) \<noteq> None
                then [''yarn'', ''add'', ''--dev'']
                else [''npm'', ''install'', ''--save-dev'']) @
               map (\<lambda>(name, version). DQ @ name @ ''@'' @ version @ DQ)
                 (requiredDependencies E t))),
            LogProjectCreated,
            ConsoleLog ''See the README.md file for some example tasks you can run.'']\<rparr>)"
    using win by (rule windows_prints_instructions)
qed

text \<open>
  The claim as first stated speaks of the manifest of the destination and of every
  platform. Two runs on manifests that list every required dependency show both to
  fail. In the first the platform is \<open>Windows_NT\<close> and the working directory, which is
  also the project root, has the full manifest: the instructions are printed. In the
  second the platform is Linux and the full manifest is in the project root
  \<open>/home/full\<close>, typed at the prompt, while the process works in \<open>/home/user\<close>: the
  destination's manifest is still there when the run ends, yet the run asks for
  confirmation and spawns the installer for the whole required set.
\<close>

theorem satisfied_manifest_counterexample:
  "lookup (fs exampleWorld) [''home'', ''full'', ''package.json'']
     = Some (File ''full manifest'') \<and>
   exampleJsonParse ''full manifest'' = Some fullManifest \<and>
   missingDependencies fullManifest
     (requiredDependencies exampleEnv CREATE_BASIC_SAMPLE_PROJECT_ACTION) = [] \<and>
   trace (snd (createProject
     (exampleEnv\<lparr>HARDHAT_CREATE_BASIC_SAMPLE_PROJECT_WITH_DEFAULTS := Some ''true'',
                 cwd := [''home'', ''full''], osType := ''Windows_NT''\<rparr>) exampleWorld)) =
     [LogAsciiLogo, LogWelcome ''2.9.0'', PromptTelemetryConsent, ConsoleLog [],
      ConsoleLog ''You need to install these dependencies to run the sample project:'',
      ConsoleLog (''  npm install --save-dev '' @
        DQ @ ''hardhat@^2.9.0'' @ DQ @ '' '' @
        DQ @ ''@nomiclabs/hardhat-waffle@^2.0.0'' @ DQ @ '' '' @
        DQ @ ''ethereum-waffle@^3.0.0'' @ DQ @ '' '' @
        DQ @ ''chai@^4.2.0'' @ DQ @ '' '' @
        DQ @ ''@nomiclabs/hardhat-ethers@^2.0.0'' @ DQ @ '' '' @
        DQ @ ''ethers@^5.0.0'' @ DQ),
      LogProjectCreated,
      ConsoleLog ''See the README.md file for some example tasks you can run.''] \<and>
   osType exampleEnv = ''Linux'' \<and>
   cwd exampleEnv = [''home'', ''user''] \<and>
   lookup (fs (snd (createProject
     (exampleEnv\<lparr>confirmProjectCreation := Inr (Absolute [''home'', ''full''], True)\<rparr>)
     exampleWorld))) [''home'', ''full'', ''package.json''] = Some (File ''full manifest'') \<and>
   lookup (fs (snd (createProject
     (exampleEnv\<lparr>confirmProjectCreation := Inr (Absolute [''home'', ''full''], True)\<rparr>)
     exampleWorld))) [''home'', ''full'', ''hardhat.config.js''] = Some (File ''basic config'') \<and>
   trace (snd (createProject
     (exampleEnv\<lparr>confirmProjectCreation := Inr (Absolute [''home'', ''full''], True)\<rparr>)
     exampleWorld)) =
     [LogAsciiLogo, LogWelcome ''2.9.0'', PromptAction, PromptProjectCreation,
      PromptTelemetryConsent,
      PromptRecommendedDepsInstallation
        (requiredDependencies exampleEnv CREATE_BASIC_SAMPLE_PROJECT_ACTION),
      ConsoleLog [],
      ConsoleLog ''npm install --save-dev hardhat@^2.9.0 @nomiclabs/hardhat-waffle@^2.0.0 ethereum-waffle@^3.0.0 chai@^4.2.0 @nomiclabs/hardhat-ethers@^2.0.0 ethers@^5.0.0'',
      Spawn ''npm''
        [''install'', ''--save-dev'', ''hardhat@^2.9.0'',
         ''@nomiclabs/hardhat-waffle@^2.0.0'', ''ethereum-waffle@^3.0.0'', ''chai@^4.2.0'',
         ''@nomiclabs/hardhat-ethers@^2.0.0'', ''ethers@^5.0.0''],
      LogProjectCreated,
      ConsoleLog ''See the README.md file for some example tasks you can run.'']"
  by code_simp

theorem satisfied_manifest_skips_install_witness:
  "createProject_finish (exampleEnv\<lparr>cwd := [''home'', ''full'']\<rparr>)
     CREATE_BASIC_SAMPLE_PROJECT_ACTION exampleWorld =
     (Inr (), exampleWorld\<lparr>trace :=
        [LogProjectCreated,
         ConsoleLog ''See the README.md file for some example tasks you can run.'']\<rparr>) \<and>
   fst (createProject_install (exampleEnv\<lparr>cwd := [''home'', ''full''], osType := ''Windows_NT''\<rparr>)
     CREATE_BASIC_SAMPLE_PROJECT_ACTION exampleWorld) = Inr True"
proof -
  let ?E = "exampleEnv\<lparr>cwd := [''home'', ''full'']\<rparr>"
  let ?W = "exampleEnv\<lparr>cwd := [''home'', ''full''], osType := ''Windows_NT''\<rparr>"
  have manifest: "lookup (fs exampleWorld) (cwd ?E @ [''package.json''])
                    = Some (File ''full manifest'')"
    by (simp add: exampleWorld_def exampleFs_def)
  have parse: "jsonParse ?E ''full manifest'' = Some fullManifest"
    by code_simp
  have gate: "osType ?E \<noteq> ''Windows_NT''"
    by (simp add: exampleEnv_def)
  have none: "missingDependencies fullManifest
                (requiredDependencies ?E CREATE_BASIC_SAMPLE_PROJECT_ACTION) = []"
    by code_simp
  have all: "lookup (fs exampleWorld) (cwd ?E @ [''package.json''])
                    = Some (File ''full manifest'') \<and>
    jsonParse ?E ''full manifest'' = Some fullManifest \<and>
    osType ?E \<noteq> ''Windows_NT'' \<and>
    missingDependencies fullManifest
      (requiredDependencies ?E CREATE_BASIC_SAMPLE_PROJECT_ACTION) = []"
    by (intro conjI manifest parse gate none)
  have win: "osType ?W = ''Windows_NT''" by simp
  note linux = satisfied_manifest_skips_install [of exampleWorld "?E" "''full manifest''"
      fullManifest CREATE_BASIC_SAMPLE_PROJECT_ACTION, THEN conjunct1, rule_format, OF all,
      THEN conjunct2]
  note windows = satisfied_manifest_skips_install [of exampleWorld "?W" "''full manifest''"
      fullManifest CREATE_BASIC_SAMPLE_PROJECT_ACTION, THEN conjunct2, rule_format, OF win,
      THEN conjunct1]
  from linux windows show ?thesis by (simp add: exampleWorld_def)
qed

lemma missing_not_subset:
  assumes "missingDependencies pkg (requiredDependencies E t) \<noteq> []"
  shows "\<not> set (HARDHAT_PACKAGE_NAME # map fst (SAMPLE_PROJECT_DEPENDENCIES t))
           \<subseteq> manifestNames pkg"
proof -
  from assms obtain x where
    x: "x \<in> set (requiredDependencies E t)"
       "case x of (name, _) \<Rightarrow> name \<notin> manifestNames pkg"
    unfolding missingDependencies_def filter_empty_conv by blast
  obtain n v where nv: "x = (n, v)" by (cases x)
  from x(2) nv have out: "n \<notin> manifestNames pkg" by simp
  from x(1) nv have "n \<in> fst ` set (requiredDependencies E t)" by force
  then have "n \<in> set (HARDHAT_PACKAGE_NAME # map fst (SAMPLE_PROJECT_DEPENDENCIES t))"
    by (simp add: requiredDependencies_def)
  with out show ?thesis by blast
qed

text \<open>
  Claim C6. Let the install gate be open (a manifest that parses in the working directory,
  a platform other than \<open>Windows_NT\<close>). The installed names are the names that the
  manifest declares in any of its three sections. If the only required name among them
  may be \<open>hardhat\<close>, some required dependency is missing, and the installation is
  confirmed (by the default-responses mode or by the answer to the prompt), then the
  install step spawns the package manager once, and the arguments after the subcommand
  and its flag are exactly the \<open>name@range\<close> tokens of the missing entries, the required
  entries whose names no section declares, in the order of the required set.
\<close>

theorem missing_installed_exactly:
  assumes manifest: "lookup (fs w) (cwd E @ [''package.json'']) = Some (File text)"
    and parse: "jsonParse E text = Some pkg"
    and gate: "osType E \<noteq> ''Windows_NT''"
    and framework_only:
      "fst ` set (requiredDependencies E t) \<inter> manifestNames pkg
         \<subseteq> {HARDHAT_PACKAGE_NAME}"
    and some_missing: "missingDependencies pkg (requiredDependencies E t) \<noteq> []"
    and confirmed:
      "useDefaultPromptResponses E \<or> confirmRecommendedDepsInstallation E = Inr True"
  shows
    "let tokens = map (\<lambda>(name, range). name @ ''@'' @ range)
                    (missingDependencies pkg (requiredDependencies E t));
         asked = (if useDefaultPromptResponses E then []
                  else [PromptRecommendedDepsInstallation
                          (missingDependencies pkg (requiredDependencies E t))])
     in trace (snd (createProject_install E t w)) =
          trace w @ asked @
          (if lookup (fs w) (cwd E @ [''yarn.lock'']) \<noteq> None
           then [ConsoleLog [],
                 ConsoleLog (''yarn '' @ joinWith '' '' ([''add'', ''--dev''] @ tokens)),
                 Spawn ''yarn'' ([''add'', ''--dev''] @ tokens)]
           else [ConsoleLog [],
                 ConsoleLog (''npm '' @ joinWith '' '' ([''install'', ''--save-dev''] @ tokens)),
                 Spawn ''npm'' ([''install'', ''--save-dev''] @ tokens)])"
proof -
  have fo: "set (HARDHAT_PACKAGE_NAME # map fst (SAMPLE_PROJECT_DEPENDENCIES t))
         \<inter> manifestNames pkg \<subseteq> {HARDHAT_PACKAGE_NAME}"
    using framework_only by (simp add: requiredDependencies_def)
  have sm: "\<not> set (HARDHAT_PACKAGE_NAME # map fst (SAMPLE_PROJECT_DEPENDENCIES t))
           \<subseteq> manifestNames pkg"
    using some_missing by (rule missing_not_subset)
  show ?thesis
    unfolding Let_def
      install_attempted [OF manifest parse gate fo sm confirmed refl refl refl]
    by simp
qed

theorem missing_installed_exactly_witness:
  "trace (snd (createProject_install (exampleEnv\<lparr>cwd := [''home'', ''hh'']\<rparr>)
     CREATE_BASIC_SAMPLE_PROJECT_ACTION exampleWorld)) =
     [PromptRecommendedDepsInstallation BASIC_SAMPLE_PROJECT_DEPENDENCIES,
      ConsoleLog [],
      ConsoleLog ''npm install --save-dev @nomiclabs/hardhat-waffle@^2.0.0 ethereum-waffle@^3.0.0 chai@^4.2.0 @nomiclabs/hardhat-ethers@^2.0.0 ethers@^5.0.0'',
      Spawn ''npm''
        [''install'', ''--save-dev'', ''@nomiclabs/hardhat-waffle@^2.0.0'',
         ''ethereum-waffle@^3.0.0'', ''chai@^4.2.0'', ''@nomiclabs/hardhat-ethers@^2.0.0'',
         ''ethers@^5.0.0'']]"
proof -
  let ?E = "exampleEnv\<lparr>cwd := [''home'', ''hh'']\<rparr>"
  let ?t = CREATE_BASIC_SAMPLE_PROJECT_ACTION
  have manifest: "lookup (fs exampleWorld) (cwd ?E @ [''package.json''])
                    = Some (File ''framework only'')"
    by (simp add: exampleWorld_def exampleFs_def)
  have parse: "jsonParse ?E ''framework only'' = Some frameworkOnlyManifest"
    by code_simp
  have gate: "osType ?E \<noteq> ''Windows_NT''"
    by (simp add: exampleEnv_def)
  have fo: "fst ` set (requiredDependencies ?E ?t) \<inter> manifestNames frameworkOnlyManifest
         \<subseteq> {HARDHAT_PACKAGE_NAME}"
    by code_simp
  have miss: "missingDependencies frameworkOnlyManifest (requiredDependencies ?E ?t)
                = BASIC_SAMPLE_PROJECT_DEPENDENCIES"
    by code_simp
  have sm: "missingDependencies frameworkOnlyManifest (requiredDependencies ?E ?t) \<noteq> []"
    unfolding miss by (simp add: BASIC_entries)
  have conf: "useDefaultPromptResponses ?E \<or> confirmRecommendedDepsInstallation ?E = Inr True"
    by (simp add: exampleEnv_def)
  have nodef: "\<not> useDefaultPromptResponses ?E"
    by (simp add: exampleEnv_def useDefaultPromptResponses_def)
  have nolock: "lookup (fs exampleWorld) (cwd ?E @ [''yarn.lock'']) = None"
    by (simp add: exampleWorld_def exampleFs_def)
  have tr: "trace exampleWorld = []" by (simp add: exampleWorld_def)
  from missing_installed_exactly [OF manifest parse gate fo sm conf]
  show ?thesis
    unfolding Let_def miss nolock tr
    using nodef by (simp add: BASIC_entries)
qed

lemma failed_child:
  "childProcess E \<noteq> Close (Some 0) \<Longrightarrow>
   (case childProcess E of
      Close status \<Rightarrow> if status = Some 0 then Inr b else Inl (ThrownBoolean False)
    | ChildError \<Rightarrow> Inl (ThrownBoolean False)) = Inl (ThrownBoolean False)"
  by (cases "childProcess E") auto

text \<open>
  Claim C2 (not met by the code). The claim wants a failed install to come back as a
  result, so that the caller prints the manual instructions. The promise of
  \<open>installDependencies\<close> is rejected with \<open>false\<close> on every outcome but exit status 0, and no
  caller catches it: in the situation where the installer is run, a failing installer
  makes the rest of \<open>createProject\<close> reject with that value, and the spawn is the last
  thing the run does: no warning, no instructions, no closing lines.
\<close>

theorem failed_install_is_thrown:
  assumes manifest: "lookup (fs w) (cwd E @ [''package.json'']) = Some (File text)"
    and parse: "jsonParse E text = Some pkg"
    and gate: "osType E \<noteq> ''Windows_NT''"
    and framework_only:
      "fst ` set (requiredDependencies E t) \<inter> manifestNames pkg
         \<subseteq> {HARDHAT_PACKAGE_NAME}"
    and some_missing: "missingDependencies pkg (requiredDependencies E t) \<noteq> []"
    and confirmed:
      "useDefaultPromptResponses E \<or> confirmRecommendedDepsInstallation E = Inr True"
    and failed: "childProcess E \<noteq> Close (Some 0)"
  shows "fst (installDependencies E packageManager args w) = Inl (ThrownBoolean False) \<and>
         fst (createProject_finish E t w) = Inl (ThrownBoolean False) \<and>
         (\<exists>command arguments.
            trace (snd (createProject_finish E t w)) =
              butlast (trace (snd (createProject_finish E t w))) @ [Spawn command arguments])"
proof -
  have fo: "set (HARDHAT_PACKAGE_NAME # map fst (SAMPLE_PROJECT_DEPENDENCIES t))
         \<inter> manifestNames pkg \<subseteq> {HARDHAT_PACKAGE_NAME}"
    using framework_only by (simp add: requiredDependencies_def)
  have sm: "\<not> set (HARDHAT_PACKAGE_NAME # map fst (SAMPLE_PROJECT_DEPENDENCIES t))
           \<subseteq> manifestNames pkg"
    using some_missing by (rule missing_not_subset)
  have one: "fst (installDependencies E packageManager args w) = Inl (ThrownBoolean False)"
    unfolding installDependencies_eq using failed_child [OF failed] by simp
  obtain w' command arguments where
    inst: "createProject_install E t w = (Inl (ThrownBoolean False), w')"
    and tr: "trace w' = butlast (trace w') @ [Spawn command arguments]"
    unfolding install_attempted [OF manifest parse gate fo sm confirmed refl refl refl]
      failed_child [OF failed]
    by (simp add: butlast_append)
  have fin: "createProject_finish E t w = (Inl (ThrownBoolean False), w')"
    unfolding createProject_finish_def using inst by (rule await_Inl)
  from one fin tr show ?thesis by auto
qed

theorem failed_install_is_thrown_witness:
  "fst (createProject_finish (exampleEnv\<lparr>cwd := [''home'', ''hh''], childProcess := Close (Some 1)\<rparr>)
     CREATE_BASIC_SAMPLE_PROJECT_ACTION exampleWorld) = Inl (ThrownBoolean False) \<and>
   fst (createProject (exampleEnv\<lparr>cwd := [''home'', ''hh''], childProcess := Close (Some 1)\<rparr>)
     exampleWorld) = Inl (ThrownBoolean False) \<and>
   trace (snd (createProject
     (exampleEnv\<lparr>cwd := [''home'', ''hh''], childProcess := Close (Some 1)\<rparr>) exampleWorld)) =
     [LogAsciiLogo, LogWelcome ''2.9.0'', PromptAction, PromptProjectCreation,
      PromptTelemetryConsent,
      PromptRecommendedDepsInstallation BASIC_SAMPLE_PROJECT_DEPENDENCIES,
      ConsoleLog [],
      ConsoleLog ''npm install --save-dev @nomiclabs/hardhat-waffle@^2.0.0 ethereum-waffle@^3.0.0 chai@^4.2.0 @nomiclabs/hardhat-ethers@^2.0.0 ethers@^5.0.0'',
      Spawn ''npm''
        [''install'', ''--save-dev'', ''@nomiclabs/hardhat-waffle@^2.0.0'',
         ''ethereum-waffle@^3.0.0'', ''chai@^4.2.0'', ''@nomiclabs/hardhat-ethers@^2.0.0'',
         ''ethers@^5.0.0'']]"
proof -
  let ?E = "exampleEnv\<lparr>cwd := [''home'', ''hh''], childProcess := Close (Some 1)\<rparr>"
  let ?t = CREATE_BASIC_SAMPLE_PROJECT_ACTION
  have manifest: "lookup (fs exampleWorld) (cwd ?E @ [''package.json''])
                    = Some (File ''framework only'')"
    by (simp add: exampleWorld_def exampleFs_def)
  have parse: "jsonParse ?E ''framework only'' = Some frameworkOnlyManifest"
    by code_simp
  have gate: "osType ?E \<noteq> ''Windows_NT''"
    by (simp add: exampleEnv_def)
  have fo: "fst ` set (requiredDependencies ?E ?t) \<inter> manifestNames frameworkOnlyManifest
         \<subseteq> {HARDHAT_PACKAGE_NAME}"
    by code_simp
  have sm: "missingDependencies frameworkOnlyManifest (requiredDependencies ?E ?t) \<noteq> []"
    by code_simp
  have conf: "useDefaultPromptResponses ?E \<or> confirmRecommendedDepsInstallation ?E = Inr True"
    by (simp add: exampleEnv_def)
  have failed: "childProcess ?E \<noteq> Close (Some 0)"
    by simp
  have 1: "fst (createProject_finish ?E ?t exampleWorld) = Inl (ThrownBoolean False)"
    using failed_install_is_thrown [OF manifest parse gate fo sm conf failed] by simp
  have 2: "fst (createProject ?E exampleWorld) = Inl (ThrownBoolean False)"
    by code_simp
  have 3: "trace (snd (createProject ?E exampleWorld)) =
     [LogAsciiLogo, LogWelcome ''2.9.0'', PromptAction, PromptProjectCreation,
      PromptTelemetryConsent,
      PromptRecommendedDepsInstallation BASIC_SAMPLE_PROJECT_DEPENDENCIES,
      ConsoleLog [],
      ConsoleLog ''npm install --save-dev @nomiclabs/hardhat-waffle@^2.0.0 ethereum-waffle@^3.0.0 chai@^4.2.0 @nomiclabs/hardhat-ethers@^2.0.0 ethers@^5.0.0'',
      Spawn ''npm''
        [''install'', ''--save-dev'', ''@nomiclabs/hardhat-waffle@^2.0.0'',
         ''ethereum-waffle@^3.0.0'', ''chai@^4.2.0'', ''@nomiclabs/hardhat-ethers@^2.0.0'',
         ''ethers@^5.0.0'']]"
    by code_simp
  from 1 2 3 show ?thesis by (intro conjI)
qed

end
